theory Spec2Isabelle
  imports Main "HOL-Library.Multiset"
begin

section \<open>Python strings and integers\<close>

text \<open>
  The pipeline reads rows of text and normalises them with \<^verbatim>\<open>str.strip\<close>,
  \<^verbatim>\<open>str.lower\<close>, \<^verbatim>\<open>str.capitalize\<close>,
  \<^verbatim>\<open>str.title\<close> and \<^verbatim>\<open>int\<close>.
  A Python \<^verbatim>\<open>str\<close> is modelled by \<^typ>\<open>string\<close>, one
  \<^typ>\<open>char\<close> per code point;
  the functions below are those of CPython on ASCII text (code points below 128), which
  is the range the model covers.
\<close>

definition py_isspace :: "char \<Rightarrow> bool" where
  "py_isspace c = (let n = (of_char c :: nat) in (9 \<le> n \<and> n \<le> 13) \<or> (28 \<le> n \<and> n \<le> 32))"

definition py_isupper :: "char \<Rightarrow> bool" where
  "py_isupper c = (let n = (of_char c :: nat) in 65 \<le> n \<and> n \<le> 90)"

definition py_islower :: "char \<Rightarrow> bool" where
  "py_islower c = (let n = (of_char c :: nat) in 97 \<le> n \<and> n \<le> 122)"

definition py_isdigit :: "char \<Rightarrow> bool" where
  "py_isdigit c = (let n = (of_char c :: nat) in 48 \<le> n \<and> n \<le> 57)"

definition py_isalnum :: "char \<Rightarrow> bool" where
  "py_isalnum c = (py_isdigit c \<or> py_isupper c \<or> py_islower c)"

definition char_lower :: "char \<Rightarrow> char" where
  "char_lower c = (if py_isupper c then char_of (of_char c + (32 :: nat)) else c)"

definition char_upper :: "char \<Rightarrow> char" where
  "char_upper c = (if py_islower c then char_of (of_char c - (32 :: nat)) else c)"

definition py_strip :: "string \<Rightarrow> string" where
  "py_strip s = rev (dropWhile py_isspace (rev (dropWhile py_isspace s)))"

definition py_lower :: "string \<Rightarrow> string" where
  "py_lower s = map char_lower s"

definition py_capitalize :: "string \<Rightarrow> string" where
  "py_capitalize s = (case s of [] \<Rightarrow> [] | c # cs \<Rightarrow> char_upper c # map char_lower cs)"

text \<open>
  \<^verbatim>\<open>str.title\<close> upper-cases a cased character that follows an uncased
  one (or starts
  the string) and lower-cases a cased character that follows a cased one.
\<close>

fun title_from :: "bool \<Rightarrow> string \<Rightarrow> string" where
  "title_from previous_is_cased [] = []"
| "title_from previous_is_cased (c # cs) =
     (if py_isupper c \<or> py_islower c
      then (if previous_is_cased then char_lower c else char_upper c) # title_from True cs
      else c # title_from False cs)"

definition py_title :: "string \<Rightarrow> string" where
  "py_title s = title_from False s"

text \<open>
  \<^verbatim>\<open>int(s)\<close> on a \<^verbatim>\<open>str\<close>: surrounding white
  space (tab, line feed, vertical tab,
  form feed, carriage return, space) is dropped, one sign is allowed, and the rest is a
  non-empty run of decimal digits in which single underscores may separate digits.
  \<^const>\<open>None\<close> stands for the \<^verbatim>\<open>ValueError\<close>.
\<close>

definition int_isspace :: "char \<Rightarrow> bool" where
  "int_isspace c = (let n = (of_char c :: nat) in (9 \<le> n \<and> n \<le> 13) \<or> n = 32)"

definition digit_val :: "char \<Rightarrow> nat" where
  "digit_val c = of_char c - 48"

fun py_digits :: "nat \<Rightarrow> string \<Rightarrow> nat option" where
  "py_digits acc [] = Some acc"
| "py_digits acc [c] = (if py_isdigit c then Some (10 * acc + digit_val c) else None)"
| "py_digits acc (c # d # ds) =
     (if py_isdigit c then py_digits (10 * acc + digit_val c) (d # ds)
      else if c = CHR ''_'' \<and> py_isdigit d then py_digits (10 * acc + digit_val d) ds
      else None)"

definition py_int :: "string \<Rightarrow> int option" where
  "py_int s =
     (let t = rev (dropWhile int_isspace (rev (dropWhile int_isspace s)));
          negative = (case t of [] \<Rightarrow> False | c # _ \<Rightarrow> c = CHR ''-'');
          body = (case t of [] \<Rightarrow> [] | c # cs \<Rightarrow> if c = CHR ''-'' \<or> c = CHR ''+'' then cs else t)
      in case body of
           [] \<Rightarrow> None
         | d # ds \<Rightarrow>
             if py_isdigit d
             then map_option (\<lambda>n. if negative then - int n else int n) (py_digits (digit_val d) ds)
             else None)"

text \<open>\<^verbatim>\<open>str(n)\<close> for an integer, as the f-string \<^verbatim>\<open>f"Edad < {edad_min}"\<close> uses it.\<close>

fun str_nat :: "nat \<Rightarrow> string" where
  "str_nat n = (if n < 10 then [char_of (48 + n)] else str_nat (n div 10) @ [char_of (48 + n mod 10)])"

declare str_nat.simps [simp del]

definition str_int :: "int \<Rightarrow> string" where
  "str_int i = (if i < 0 then CHR ''-'' # str_nat (nat (- i)) else str_nat (nat i))"

section \<open>Transform: valid records and rejected records\<close>

text \<open>
  A raw row is the \<^verbatim>\<open>dict\<close> that
  \<^verbatim>\<open>csv.DictReader\<close> yields: a column name is absent
  (\<open>row k = None\<close>), present with the value \<^verbatim>\<open>None\<close>
  (\<open>row k = Some None\<close>, a short
  line) or present with a string. A canonical record is the tuple
  \<^verbatim>\<open>(nombre, edad, ciudad)\<close>.
\<close>

type_synonym raw_row = "string \<rightharpoonup> string option"

type_synonym canonical = "string \<times> int \<times> string"

record rechazado =
  rj_nombre :: "string option"
  rj_edad :: "string option"
  rj_ciudad :: "string option"
  motivo :: string

definition required_cols :: "string set" where
  "required_cols = {''nombre'', ''edad'', ''ciudad''}"

definition has_required_cols :: "raw_row \<Rightarrow> bool" where
  "has_required_cols row = (\<forall>k \<in> required_cols. row k \<noteq> None)"

definition dict_get :: "raw_row \<Rightarrow> string \<Rightarrow> string option \<Rightarrow> string option" where
  "dict_get row k dflt = (case row k of None \<Rightarrow> dflt | Some v \<Rightarrow> v)"

definition or_empty :: "string option \<Rightarrow> string option" where
  "or_empty v = (case v of None \<Rightarrow> Some [] | Some s \<Rightarrow> Some s)"

text \<open>The exceptions the programs can meet: Python's own and those of \<^verbatim>\<open>sqlite3\<close>.\<close>

datatype py_exception =
  AttributeError | ValueError | TypeError | OverflowError | OperationalError | IntegrityError

text \<open>
  The first \<^verbatim>\<open>try\<close> block of
  \<^verbatim>\<open>transform_with_rejections\<close>
  (etl_incremental_audit.py and etl_relational.py): both values are strings when it is
  reached, and the string methods do not raise.
\<close>

definition normalize_text :: "string \<Rightarrow> string \<Rightarrow> py_exception + (string \<times> string)" where
  "normalize_text nombre_raw ciudad_raw =
     Inr (py_capitalize (py_lower (py_strip nombre_raw)), py_title (py_lower (py_strip ciudad_raw)))"

text \<open>
  The body of the loop of \<^verbatim>\<open>transform_with_rejections\<close> in
  etl_incremental_audit.py
  (the same text as in etl_relational.py): \<open>Inl\<close> is the dictionary appended to
  \<^verbatim>\<open>rechazados\<close>, \<open>Inr\<close> the tuple appended to
  \<^verbatim>\<open>validos\<close>.
\<close>

definition transform_row :: "int \<Rightarrow> raw_row \<Rightarrow> rechazado + canonical" where
  "transform_row edad_min row =
     (if \<not> has_required_cols row then
        Inl \<lparr>rj_nombre = dict_get row ''nombre'' (Some []),
             rj_edad = dict_get row ''edad'' (Some []),
             rj_ciudad = dict_get row ''ciudad'' (Some []),
             motivo = ''Faltan columnas requeridas''\<rparr>
      else
        let nombre_raw = dict_get row ''nombre'' None;
            edad_raw = dict_get row ''edad'' None;
            ciudad_raw = dict_get row ''ciudad'' None
        in case (nombre_raw, edad_raw, ciudad_raw) of
             (Some n, Some e, Some c) \<Rightarrow>
               (case normalize_text n c of
                  Inl _ \<Rightarrow>
                    Inl \<lparr>rj_nombre = Some n, rj_edad = Some e, rj_ciudad = Some c,
                         motivo = ''Error al normalizar texto''\<rparr>
                | Inr (nombre, ciudad) \<Rightarrow>
                    (case py_int e of
                       None \<Rightarrow>
                         Inl \<lparr>rj_nombre = Some n, rj_edad = Some e, rj_ciudad = Some c,
                              motivo = ''Edad no convertible a int''\<rparr>
                     | Some edad \<Rightarrow>
                         if edad < edad_min then
                           Inl \<lparr>rj_nombre = Some n, rj_edad = Some e, rj_ciudad = Some c,
                                motivo = ''Edad < '' @ str_int edad_min\<rparr>
                         else Inr (nombre, edad, ciudad)))
           | _ \<Rightarrow>
               Inl \<lparr>rj_nombre = or_empty nombre_raw, rj_edad = or_empty edad_raw,
                    rj_ciudad = or_empty ciudad_raw,
                    motivo = ''Valor None en campo requerido''\<rparr>)"

text \<open>The \<^verbatim>\<open>for\<close> loop, with the two lists it appends to.\<close>

fun transform_loop ::
  "int \<Rightarrow> raw_row list \<Rightarrow> canonical list \<Rightarrow> rechazado list \<Rightarrow> canonical list \<times> rechazado list"
where
  "transform_loop edad_min [] validos rechazados = (validos, rechazados)"
| "transform_loop edad_min (row # rest) validos rechazados =
     (case transform_row edad_min row of
        Inl r \<Rightarrow> transform_loop edad_min rest validos (rechazados @ [r])
      | Inr v \<Rightarrow> transform_loop edad_min rest (validos @ [v]) rechazados)"

definition transform_with_rejections ::
  "raw_row list \<Rightarrow> int \<Rightarrow> canonical list \<times> rechazado list" where
  "transform_with_rejections datos_crudos edad_min = transform_loop edad_min datos_crudos [] []"

text \<open>
  etl_batch.py has its own \<^verbatim>\<open>transform_with_rejections\<close>: one
  \<^verbatim>\<open>try\<close> block around
  the three conversions, \<^verbatim>\<open>except Exception\<close>, and a rejected record
  that is the whole
  row with the key \<^verbatim>\<open>motivo\<close> added. A value
  \<^verbatim>\<open>None\<close> raises in \<^verbatim>\<open>.strip()\<close>
  (\<^verbatim>\<open>AttributeError\<close>) or in \<^verbatim>\<open>int\<close>
  (\<^verbatim>\<open>TypeError\<close>).
\<close>

definition motivo_invalido :: string where
  "motivo_invalido =
     ''Normalizaci'' @ [char_of (243 :: nat)] @ ''n o tipo inv'' @ [char_of (225 :: nat)] @ ''lido''"

definition try_convert :: "raw_row \<Rightarrow> py_exception + canonical" where
  "try_convert row =
     (case dict_get row ''nombre'' None of
        None \<Rightarrow> Inl AttributeError
      | Some n \<Rightarrow>
          (case dict_get row ''ciudad'' None of
             None \<Rightarrow> Inl AttributeError
           | Some c \<Rightarrow>
               (case dict_get row ''edad'' None of
                  None \<Rightarrow> Inl TypeError
                | Some e \<Rightarrow>
                    (case py_int e of
                       None \<Rightarrow> Inl ValueError
                     | Some edad \<Rightarrow>
                         Inr (py_capitalize (py_lower (py_strip n)), edad,
                              py_title (py_lower (py_strip c)))))))"

definition transform_row_batch :: "int \<Rightarrow> raw_row \<Rightarrow> raw_row + canonical" where
  "transform_row_batch edad_min row =
     (if \<not> has_required_cols row then Inl (row(''motivo'' \<mapsto> Some ''Faltan columnas''))
      else case try_convert row of
             Inl _ \<Rightarrow> Inl (row(''motivo'' \<mapsto> Some motivo_invalido))
           | Inr (nombre, edad, ciudad) \<Rightarrow>
               if edad < edad_min then Inl (row(''motivo'' \<mapsto> Some (''Edad < '' @ str_int edad_min)))
               else Inr (nombre, edad, ciudad))"

fun transform_loop_batch ::
  "int \<Rightarrow> raw_row list \<Rightarrow> canonical list \<Rightarrow> raw_row list \<Rightarrow> canonical list \<times> raw_row list"
where
  "transform_loop_batch edad_min [] validos rechazados = (validos, rechazados)"
| "transform_loop_batch edad_min (row # rest) validos rechazados =
     (case transform_row_batch edad_min row of
        Inl r \<Rightarrow> transform_loop_batch edad_min rest validos (rechazados @ [r])
      | Inr v \<Rightarrow> transform_loop_batch edad_min rest (validos @ [v]) rechazados)"

definition transform_with_rejections_batch ::
  "raw_row list \<Rightarrow> int \<Rightarrow> canonical list \<times> raw_row list" where
  "transform_with_rejections_batch datos_crudos edad_min =
     transform_loop_batch edad_min datos_crudos [] []"


text \<open>
  The five validation stages as the specification lists them (section 4.1), each with
  the condition under which it fails, and the reason string the source gives it. The
  first stage of the list that fails is the reason the specification asks for.
\<close>

datatype reason =
  MissingRequiredColumns | NullRequiredField | NormalizationFailure | AgeNotInteger
  | AgeBelowThreshold int

fun reason_text :: "reason \<Rightarrow> string" where
  "reason_text MissingRequiredColumns = ''Faltan columnas requeridas''"
| "reason_text NullRequiredField = ''Valor None en campo requerido''"
| "reason_text NormalizationFailure = ''Error al normalizar texto''"
| "reason_text AgeNotInteger = ''Edad no convertible a int''"
| "reason_text (AgeBelowThreshold m) = ''Edad < '' @ str_int m"

fun stage_fails :: "raw_row \<Rightarrow> reason \<Rightarrow> bool" where
  "stage_fails row MissingRequiredColumns = (\<exists>k \<in> required_cols. row k = None)"
| "stage_fails row NullRequiredField = (\<exists>k \<in> required_cols. row k = Some None)"
| "stage_fails row NormalizationFailure =
     (case (row ''nombre'', row ''ciudad'') of
        (Some (Some n), Some (Some c)) \<Rightarrow> isl (normalize_text n c)
      | _ \<Rightarrow> False)"
| "stage_fails row AgeNotInteger =
     (case row ''edad'' of Some (Some e) \<Rightarrow> py_int e = None | _ \<Rightarrow> False)"
| "stage_fails row (AgeBelowThreshold m) =
     (case row ''edad'' of
        Some (Some e) \<Rightarrow> (case py_int e of Some edad \<Rightarrow> edad < m | None \<Rightarrow> False)
      | _ \<Rightarrow> False)"

definition spec_stages :: "int \<Rightarrow> reason list" where
  "spec_stages edad_min =
     [MissingRequiredColumns, NullRequiredField, NormalizationFailure, AgeNotInteger,
      AgeBelowThreshold edad_min]"

definition spec_first_failure :: "int \<Rightarrow> raw_row \<Rightarrow> reason option" where
  "spec_first_failure edad_min row = find (stage_fails row) (spec_stages edad_min)"

definition motivo_of :: "rechazado + canonical \<Rightarrow> string option" where
  "motivo_of outcome = (case outcome of Inl r \<Rightarrow> Some (motivo r) | Inr _ \<Rightarrow> None)"

section \<open>The clock and the run identifier\<close>

text \<open>
  \<^verbatim>\<open>datetime.now(timezone.utc)\<close> reads the clock; the reading is a
  parameter of the
  functions that take one. \<^verbatim>\<open>strftime\<close> pads every field but the year
  with zeros.
\<close>

record datetime =
  year :: nat
  month :: nat
  day :: nat
  hour :: nat
  minute :: nat
  second :: nat
  microsecond :: nat

definition pad0 :: "nat \<Rightarrow> nat \<Rightarrow> string" where
  "pad0 w n = replicate (w - length (str_nat n)) (CHR ''0'') @ str_nat n"

text \<open>\<^verbatim>\<open>strftime("%Y%m%dT%H%M%SZ")\<close>, the run identifier of etl_incremental_audit.py.\<close>

definition strftime_seconds :: "datetime \<Rightarrow> string" where
  "strftime_seconds t =
     str_nat (year t) @ pad0 2 (month t) @ pad0 2 (day t) @ ''T''
       @ pad0 2 (hour t) @ pad0 2 (minute t) @ pad0 2 (second t) @ ''Z''"

text \<open>\<^verbatim>\<open>strftime("%Y%m%dT%H%M%S%fZ")\<close>, with the microseconds.\<close>

definition strftime_microseconds :: "datetime \<Rightarrow> string" where
  "strftime_microseconds t =
     str_nat (year t) @ pad0 2 (month t) @ pad0 2 (day t) @ ''T''
       @ pad0 2 (hour t) @ pad0 2 (minute t) @ pad0 2 (second t) @ pad0 6 (microsecond t) @ ''Z''"

definition isoformat :: "datetime \<Rightarrow> string" where
  "isoformat t =
     pad0 4 (year t) @ ''-'' @ pad0 2 (month t) @ ''-'' @ pad0 2 (day t) @ ''T''
       @ pad0 2 (hour t) @ '':'' @ pad0 2 (minute t) @ '':'' @ pad0 2 (second t)
       @ (if microsecond t = 0 then [] else ''.'' @ pad0 6 (microsecond t)) @ ''+00:00''"

text \<open>\<^verbatim>\<open>make_run_id\<close> of etl_batch.py; \<open>now\<close> is the clock reading it takes.\<close>

definition make_run_id :: "datetime \<Rightarrow> string \<Rightarrow> string" where
  "make_run_id now source_file =
     (let ts = strftime_microseconds now;
          safe = map (\<lambda>ch. if py_isalnum ch then ch else CHR ''_'') source_file
      in ts @ ''_'' @ safe)"

section \<open>The SQLite store\<close>

text \<open>
  A table is the list of its rows and the counter that
  \<^verbatim>\<open>AUTOINCREMENT\<close> keeps in
  \<^verbatim>\<open>sqlite_sequence\<close>. The order of the list is the order of
  insertion; the programs
  read it only through \<^verbatim>\<open>COUNT(*)\<close> and look-ups by value.

  The file datos_etl_relacional.db holds \<^verbatim>\<open>ciudades(ciudad_id,
  nombre)\<close>, the table
  \<^verbatim>\<open>personas_limpias\<close> in one of its two generations (etl_relational.py:
  \<^verbatim>\<open>persona_id, nombre, edad, ciudad_id\<close>; etl_incremental_audit.py
  and etl_batch.py:
  the same with \<^verbatim>\<open>processed_at, run_id\<close>), the table
  \<^verbatim>\<open>personas_limpias_new\<close> that
  the migration creates and renames, and \<^verbatim>\<open>etl_runs\<close>. All values are
  non-null, as the
  Python tuples bound to the statements are.
\<close>

datatype 'r table = Table (table_rows: "'r list") (table_seq: int)

type_synonym ciudad_row = "int \<times> string"
type_synonym persona_rel_row = "int \<times> string \<times> int \<times> int"
type_synonym persona_row = "int \<times> string \<times> int \<times> int \<times> string \<times> string"
type_synonym persona_key = "string \<times> int \<times> int"
type_synonym run_row = "string \<times> string \<times> string \<times> int \<times> int \<times> int \<times> int"

datatype personas = Relational "persona_rel_row table" | Audited "persona_row table"

record store =
  ciudades :: "ciudad_row table option"
  personas_limpias :: "personas option"
  personas_limpias_new :: "persona_row table option"
  etl_runs :: "run_row list option"

definition empty_store :: store where
  "empty_store =
     \<lparr>ciudades = None, personas_limpias = None, personas_limpias_new = None, etl_runs = None\<rparr>"

fun rel_key :: "persona_rel_row \<Rightarrow> persona_key" where
  "rel_key (persona_id, nombre, edad, ciudad_id) = (nombre, edad, ciudad_id)"

fun persona_key :: "persona_row \<Rightarrow> persona_key" where
  "persona_key (persona_id, nombre, edad, ciudad_id, processed_at, run_id) = (nombre, edad, ciudad_id)"

fun personas_keys :: "personas \<Rightarrow> persona_key list" where
  "personas_keys (Relational t) = map rel_key (table_rows t)"
| "personas_keys (Audited t) = map persona_key (table_rows t)"

fun personas_ids :: "personas \<Rightarrow> int list" where
  "personas_ids (Relational t) = map fst (table_rows t)"
| "personas_ids (Audited t) = map fst (table_rows t)"

text \<open>
  The row id an \<^verbatim>\<open>AUTOINCREMENT\<close> table gives a new row: one more
  than the largest id
  the table holds or has ever held. An \<^verbatim>\<open>INSERT OR IGNORE\<close> that is
  ignored has
  taken its id all the same, so the counter moves with every attempt.
\<close>

definition next_rowid :: "int list \<Rightarrow> int \<Rightarrow> int" where
  "next_rowid ids sq = fold max ids sq + 1"

text \<open>A Python \<^verbatim>\<open>int\<close> bound to a statement must fit SQLite's 64-bit INTEGER.\<close>

definition fits_int64 :: "int \<Rightarrow> bool" where
  "fits_int64 i = (- (2 ^ 63) \<le> i \<and> i < 2 ^ 63)"

subsection \<open>The SQL statements\<close>

text \<open>\<^verbatim>\<open>CREATE TABLE IF NOT EXISTS ciudades (...)\<close>\<close>

definition create_ciudades :: "store \<Rightarrow> py_exception + store" where
  "create_ciudades st =
     Inr (case ciudades st of None \<Rightarrow> st\<lparr>ciudades := Some (Table [] 0)\<rparr> | Some _ \<Rightarrow> st)"

text \<open>
  \<^verbatim>\<open>CREATE TABLE IF NOT EXISTS personas_limpias (...)\<close> with the
  audit columns
  (etl_incremental_audit.py, etl_batch.py) and without them (etl_relational.py).
\<close>

definition create_personas_limpias :: "store \<Rightarrow> py_exception + store" where
  "create_personas_limpias st =
     Inr (case personas_limpias st of
            None \<Rightarrow> st\<lparr>personas_limpias := Some (Audited (Table [] 0))\<rparr>
          | Some _ \<Rightarrow> st)"

definition create_personas_limpias_relational :: "store \<Rightarrow> py_exception + store" where
  "create_personas_limpias_relational st =
     Inr (case personas_limpias st of
            None \<Rightarrow> st\<lparr>personas_limpias := Some (Relational (Table [] 0))\<rparr>
          | Some _ \<Rightarrow> st)"

text \<open>\<^verbatim>\<open>CREATE TABLE IF NOT EXISTS personas_limpias_new (...)\<close>\<close>

definition create_personas_limpias_new :: "store \<Rightarrow> py_exception + store" where
  "create_personas_limpias_new st =
     Inr (case personas_limpias_new st of
            None \<Rightarrow> st\<lparr>personas_limpias_new := Some (Table [] 0)\<rparr>
          | Some _ \<Rightarrow> st)"

text \<open>\<^verbatim>\<open>CREATE TABLE IF NOT EXISTS etl_runs (...)\<close>\<close>

definition create_etl_runs :: "store \<Rightarrow> py_exception + store" where
  "create_etl_runs st =
     Inr (case etl_runs st of None \<Rightarrow> st\<lparr>etl_runs := Some []\<rparr> | Some _ \<Rightarrow> st)"

text \<open>\<^verbatim>\<open>SELECT name FROM sqlite_master WHERE type='table' AND name=...\<close>, then \<^verbatim>\<open>fetchone() is not None\<close>.\<close>

definition table_exists :: "string \<Rightarrow> store \<Rightarrow> py_exception + bool" where
  "table_exists name st =
     Inr (if name = ''ciudades'' then ciudades st \<noteq> None
          else if name = ''personas_limpias'' then personas_limpias st \<noteq> None
          else if name = ''personas_limpias_new'' then personas_limpias_new st \<noteq> None
          else if name = ''etl_runs'' then etl_runs st \<noteq> None
          else False)"

text \<open>\<^verbatim>\<open>PRAGMA table_info(table)\<close>, the column names; no row for a table that does not exist.\<close>

definition audited_columns :: "string list" where
  "audited_columns = [''persona_id'', ''nombre'', ''edad'', ''ciudad_id'', ''processed_at'', ''run_id'']"

definition table_info :: "string \<Rightarrow> store \<Rightarrow> py_exception + string list" where
  "table_info name st =
     Inr (if name = ''ciudades'' then
            (case ciudades st of None \<Rightarrow> [] | Some _ \<Rightarrow> [''ciudad_id'', ''nombre''])
          else if name = ''personas_limpias'' then
            (case personas_limpias st of
               None \<Rightarrow> []
             | Some (Relational _) \<Rightarrow> [''persona_id'', ''nombre'', ''edad'', ''ciudad_id'']
             | Some (Audited _) \<Rightarrow> audited_columns)
          else if name = ''personas_limpias_new'' then
            (case personas_limpias_new st of None \<Rightarrow> [] | Some _ \<Rightarrow> audited_columns)
          else if name = ''etl_runs'' then
            (case etl_runs st of
               None \<Rightarrow> []
             | Some _ \<Rightarrow> [''run_id'', ''started_at'', ''source_file'', ''valid_count'',
                           ''rejected_count'', ''inserted_new'', ''ignored_duplicates''])
          else [])"

text \<open>\<^verbatim>\<open>INSERT OR IGNORE INTO ciudades (nombre) VALUES (?)\<close>: \<^verbatim>\<open>nombre\<close> is UNIQUE.\<close>

definition insert_or_ignore_ciudad :: "string \<Rightarrow> store \<Rightarrow> py_exception + store" where
  "insert_or_ignore_ciudad nombre st =
     (case ciudades st of
        None \<Rightarrow> Inl OperationalError
      | Some t \<Rightarrow>
          let new_id = next_rowid (map fst (table_rows t)) (table_seq t) in
          if nombre \<in> set (map snd (table_rows t))
          then Inr (st\<lparr>ciudades := Some (Table (table_rows t) new_id)\<rparr>)
          else Inr (st\<lparr>ciudades := Some (Table (table_rows t @ [(new_id, nombre)]) new_id)\<rparr>))"

text \<open>\<^verbatim>\<open>SELECT ciudad_id FROM ciudades WHERE nombre = ?\<close>, then \<^verbatim>\<open>fetchone()\<close>.\<close>

definition select_ciudad_id :: "string \<Rightarrow> store \<Rightarrow> py_exception + int option" where
  "select_ciudad_id nombre st =
     (case ciudades st of
        None \<Rightarrow> Inl OperationalError
      | Some t \<Rightarrow> Inr (map_option fst (find (\<lambda>r. snd r = nombre) (table_rows t))))"

text \<open>\<^verbatim>\<open>SELECT COUNT(*) FROM personas_limpias\<close>, then \<^verbatim>\<open>fetchone()[0]\<close>.\<close>

definition count_personas :: "store \<Rightarrow> py_exception + int" where
  "count_personas st =
     (case personas_limpias st of
        None \<Rightarrow> Inl OperationalError
      | Some p \<Rightarrow> Inr (int (length (personas_keys p))))"

text \<open>
  \<^verbatim>\<open>INSERT OR IGNORE INTO personas_limpias (nombre, edad, ciudad_id,
  processed_at, run_id)
  VALUES (?, ?, ?, ?, ?)\<close>: the statement does not compile against a table without the
  audit columns; \<^verbatim>\<open>UNIQUE(nombre, edad, ciudad_id)\<close> decides whether
  the row is kept.
\<close>

definition insert_or_ignore_persona ::
  "string \<times> int \<times> int \<times> string \<times> string \<Rightarrow> store \<Rightarrow> py_exception + store" where
  "insert_or_ignore_persona params st =
     (case params of (nombre, edad, ciudad_id, processed_at, run_id) \<Rightarrow>
        (case personas_limpias st of
           None \<Rightarrow> Inl OperationalError
         | Some (Relational _) \<Rightarrow> Inl OperationalError
         | Some (Audited t) \<Rightarrow>
             if \<not> fits_int64 edad \<or> \<not> fits_int64 ciudad_id then Inl OverflowError
             else
               let new_id = next_rowid (map fst (table_rows t)) (table_seq t) in
               if (nombre, edad, ciudad_id) \<in> set (map persona_key (table_rows t))
               then Inr (st\<lparr>personas_limpias := Some (Audited (Table (table_rows t) new_id))\<rparr>)
               else Inr (st\<lparr>personas_limpias := Some (Audited (Table
                      (table_rows t @ [(new_id, nombre, edad, ciudad_id, processed_at, run_id)])
                      new_id))\<rparr>)))"

text \<open>
  \<^verbatim>\<open>INSERT OR IGNORE INTO personas_limpias (nombre, edad, ciudad_id) VALUES
  (?, ?, ?)\<close>
  of etl_relational.py. Against the table with the audit columns the row has no value
  for the NOT NULL columns and is ignored.
\<close>

definition insert_or_ignore_persona_relational ::
  "string \<times> int \<times> int \<Rightarrow> store \<Rightarrow> py_exception + store" where
  "insert_or_ignore_persona_relational params st =
     (case params of (nombre, edad, ciudad_id) \<Rightarrow>
        (case personas_limpias st of
           None \<Rightarrow> Inl OperationalError
         | Some (Relational t) \<Rightarrow>
             if \<not> fits_int64 edad \<or> \<not> fits_int64 ciudad_id then Inl OverflowError
             else
               let new_id = next_rowid (map fst (table_rows t)) (table_seq t) in
               if (nombre, edad, ciudad_id) \<in> set (map rel_key (table_rows t))
               then Inr (st\<lparr>personas_limpias := Some (Relational (Table (table_rows t) new_id))\<rparr>)
               else Inr (st\<lparr>personas_limpias := Some (Relational (Table
                      (table_rows t @ [(new_id, nombre, edad, ciudad_id)]) new_id))\<rparr>)
         | Some (Audited t) \<Rightarrow>
             if \<not> fits_int64 edad \<or> \<not> fits_int64 ciudad_id then Inl OverflowError
             else Inr (st\<lparr>personas_limpias := Some (Audited (Table (table_rows t)
                    (next_rowid (map fst (table_rows t)) (table_seq t))))\<rparr>)))"

text \<open>
  \<^verbatim>\<open>INSERT OR IGNORE INTO personas_limpias_new (persona_id, nombre, edad,
  ciudad_id,
  processed_at, run_id) SELECT persona_id, nombre, edad, ciudad_id, ?, ? FROM
  personas_limpias\<close>: each row of the old table is offered with its own id; a row whose
  id (PRIMARY KEY) or whose \<^verbatim>\<open>(nombre, edad, ciudad_id)\<close> (UNIQUE) is
  already in the new
  table is ignored.
\<close>

definition copy_row ::
  "string \<Rightarrow> string \<Rightarrow> persona_rel_row \<Rightarrow> persona_row table \<Rightarrow> persona_row table" where
  "copy_row processed_at run_id r t =
     (case r of (persona_id, nombre, edad, ciudad_id) \<Rightarrow>
        if persona_id \<in> set (map fst (table_rows t))
           \<or> (nombre, edad, ciudad_id) \<in> set (map persona_key (table_rows t))
        then Table (table_rows t) (max (table_seq t) persona_id)
        else Table (table_rows t @ [(persona_id, nombre, edad, ciudad_id, processed_at, run_id)])
               (max (table_seq t) persona_id))"

fun selected_columns :: "personas \<Rightarrow> persona_rel_row list" where
  "selected_columns (Relational t) = table_rows t"
| "selected_columns (Audited t) =
     map (\<lambda>(persona_id, nombre, edad, ciudad_id, _, _). (persona_id, nombre, edad, ciudad_id))
       (table_rows t)"

definition copy_into_new :: "string \<Rightarrow> string \<Rightarrow> store \<Rightarrow> py_exception + store" where
  "copy_into_new processed_at run_id st =
     (case personas_limpias_new st of
        None \<Rightarrow> Inl OperationalError
      | Some t \<Rightarrow>
          (case personas_limpias st of
             None \<Rightarrow> Inl OperationalError
           | Some p \<Rightarrow>
               Inr (st\<lparr>personas_limpias_new :=
                      Some (fold (copy_row processed_at run_id) (selected_columns p) t)\<rparr>)))"

text \<open>\<^verbatim>\<open>DROP TABLE personas_limpias\<close>\<close>

definition drop_personas_limpias :: "store \<Rightarrow> py_exception + store" where
  "drop_personas_limpias st =
     (case personas_limpias st of
        None \<Rightarrow> Inl OperationalError
      | Some _ \<Rightarrow> Inr (st\<lparr>personas_limpias := None\<rparr>))"

text \<open>\<^verbatim>\<open>ALTER TABLE personas_limpias_new RENAME TO personas_limpias\<close>\<close>

definition rename_new :: "store \<Rightarrow> py_exception + store" where
  "rename_new st =
     (case personas_limpias_new st of
        None \<Rightarrow> Inl OperationalError
      | Some t \<Rightarrow>
          (case personas_limpias st of
             Some _ \<Rightarrow> Inl OperationalError
           | None \<Rightarrow> Inr (st\<lparr>personas_limpias := Some (Audited t), personas_limpias_new := None\<rparr>)))"

text \<open>\<^verbatim>\<open>INSERT INTO etl_runs (...) VALUES (?, ?, ?, ?, ?, ?, ?)\<close>: \<^verbatim>\<open>run_id\<close> is the PRIMARY KEY.\<close>

definition insert_etl_run :: "run_row \<Rightarrow> store \<Rightarrow> py_exception + store" where
  "insert_etl_run r st =
     (case r of (run_id, started_at, source_file, valid_count, rejected_count, inserted_new,
                 ignored_duplicates) \<Rightarrow>
        (case etl_runs st of
           None \<Rightarrow> Inl OperationalError
         | Some runs \<Rightarrow>
             if \<not> (fits_int64 valid_count \<and> fits_int64 rejected_count \<and> fits_int64 inserted_new
                    \<and> fits_int64 ignored_duplicates)
             then Inl OverflowError
             else if run_id \<in> set (map fst runs) then Inl IntegrityError
             else Inr (st\<lparr>etl_runs := Some (runs @ [r])\<rparr>)))"

subsection \<open>Connections\<close>

text \<open>
  A connection of the \<^verbatim>\<open>sqlite3\<close> module: what the database file holds
  (\<open>durable\<close>), what the connection's cursor sees (\<open>working\<close>),
  whether a transaction is
  open and whether the connection is closed. The module opens a transaction before an
  INSERT and leaves it open until \<^verbatim>\<open>commit()\<close>; a schema statement
  outside a
  transaction is committed at once. A function of the programs that takes the cursor or the
  connection is a function from the connection to its result, or the exception it raises,
  and the connection as it leaves it.
\<close>

record 's conn =
  durable :: 's
  working :: 's
  in_transaction :: bool
  closed :: bool

type_synonym ('s, 'a) db = "'s conn \<Rightarrow> (py_exception + 'a) \<times> 's conn"

definition connect :: "'s \<Rightarrow> 's conn" where
  "connect db_path = \<lparr>durable = db_path, working = db_path, in_transaction = False, closed = False\<rparr>"

definition db_return :: "'a \<Rightarrow> ('s, 'a) db" where
  "db_return x c = (Inr x, c)"

definition db_raise :: "py_exception \<Rightarrow> ('s, 'a) db" where
  "db_raise e c = (Inl e, c)"

definition db_bind :: "('s, 'a) db \<Rightarrow> ('a \<Rightarrow> ('s, 'b) db) \<Rightarrow> ('s, 'b) db" where
  "db_bind m f c = (case m c of (Inl e, c') \<Rightarrow> (Inl e, c') | (Inr x, c') \<Rightarrow> f x c')"

text \<open>\<^verbatim>\<open>cursor.execute\<close> of a CREATE, DROP or ALTER statement.\<close>

definition execute_ddl :: "('s \<Rightarrow> py_exception + 's) \<Rightarrow> ('s, unit) db" where
  "execute_ddl stmt c =
     (case stmt (working c) of
        Inl e \<Rightarrow> (Inl e, c)
      | Inr s \<Rightarrow>
          (Inr (), if in_transaction c then c\<lparr>working := s\<rparr> else c\<lparr>durable := s, working := s\<rparr>))"

text \<open>
  \<^verbatim>\<open>cursor.execute\<close> of an INSERT statement. A statement that does
  not compile
  (\<^verbatim>\<open>OperationalError\<close>) raises before the transaction is opened.
\<close>

definition execute_dml :: "('s \<Rightarrow> py_exception + 's) \<Rightarrow> ('s, unit) db" where
  "execute_dml stmt c =
     (case stmt (working c) of
        Inl e \<Rightarrow> (Inl e, if e = OperationalError then c else c\<lparr>in_transaction := True\<rparr>)
      | Inr s \<Rightarrow> (Inr (), c\<lparr>working := s, in_transaction := True\<rparr>))"

text \<open>\<^verbatim>\<open>cursor.execute\<close> of a SELECT or PRAGMA statement and the fetch of its result.\<close>

definition execute_query :: "('s \<Rightarrow> py_exception + 'a) \<Rightarrow> ('s, 'a) db" where
  "execute_query q c = (case q (working c) of Inl e \<Rightarrow> (Inl e, c) | Inr x \<Rightarrow> (Inr x, c))"

definition commit :: "('s, unit) db" where
  "commit c = (Inr (), c\<lparr>durable := working c, in_transaction := False\<rparr>)"

text \<open>\<^verbatim>\<open>conn.close()\<close> drops what the open transaction has not committed.\<close>

definition close :: "('s, unit) db" where
  "close c = (Inr (), c\<lparr>working := durable c, in_transaction := False, closed := True\<rparr>)"

section \<open>Load: etl\_incremental\_audit.py\<close>

definition ensure_ciudades :: "(store, unit) db" where
  "ensure_ciudades = execute_ddl create_ciudades"

definition table_has_column :: "string \<Rightarrow> string \<Rightarrow> (store, bool) db" where
  "table_has_column table column =
     db_bind (execute_query (table_info table)) (\<lambda>cols. db_return (column \<in> set cols))"

definition default_processed_at :: string where
  "default_processed_at = ''1970-01-01T00:00:00Z''"

definition default_run_id :: string where
  "default_run_id = ''MIGRATION''"

definition migrate_personas_limpias_if_needed :: "(store, unit) db" where
  "migrate_personas_limpias_if_needed =
     db_bind (execute_query (table_exists ''personas_limpias'')) (\<lambda>exists.
       if \<not> exists then db_return ()
       else
         db_bind (table_has_column ''personas_limpias'' ''processed_at'') (\<lambda>has_processed_at.
         db_bind (if has_processed_at then table_has_column ''personas_limpias'' ''run_id''
                  else db_return False) (\<lambda>has_both.
           if has_both then db_return ()
           else
             db_bind (execute_ddl create_personas_limpias_new) (\<lambda>_.
             db_bind (execute_dml (copy_into_new default_processed_at default_run_id)) (\<lambda>_.
             db_bind (execute_ddl drop_personas_limpias) (\<lambda>_.
             execute_ddl rename_new))))))"

definition ensure_personas_limpias :: "(store, unit) db" where
  "ensure_personas_limpias = execute_ddl create_personas_limpias"

definition ensure_etl_runs :: "(store, unit) db" where
  "ensure_etl_runs = execute_ddl create_etl_runs"

text \<open>\<^verbatim>\<open>fetchone()[0]\<close> raises \<^verbatim>\<open>TypeError\<close> when no row is found.\<close>

definition get_or_create_city_id :: "string \<Rightarrow> (store, int) db" where
  "get_or_create_city_id ciudad =
     db_bind (execute_dml (insert_or_ignore_ciudad ciudad)) (\<lambda>_.
     db_bind (execute_query (select_ciudad_id ciudad)) (\<lambda>row.
       case row of None \<Rightarrow> db_raise TypeError | Some ciudad_id \<Rightarrow> db_return ciudad_id))"

text \<open>The loop \<^verbatim>\<open>for (nombre, edad, ciudad) in validos\<close> of the two loaders.\<close>

fun insert_validos :: "string \<Rightarrow> string \<Rightarrow> canonical list \<Rightarrow> (store, unit) db" where
  "insert_validos processed_at run_id [] = db_return ()"
| "insert_validos processed_at run_id ((nombre, edad, ciudad) # rest) =
     db_bind (get_or_create_city_id ciudad) (\<lambda>ciudad_id.
     db_bind (execute_dml (insert_or_ignore_persona (nombre, edad, ciudad_id, processed_at, run_id)))
       (\<lambda>_. insert_validos processed_at run_id rest))"

text \<open>What a run prints: its identifier, the two row counts and the two counters.\<close>

record run_log =
  log_run_id :: string
  filas_antes :: int
  filas_despues :: int
  inserted_new :: int
  ignored_duplicates :: int

text \<open>
  \<^verbatim>\<open>load_incremental\<close>: \<open>db_path\<close> is the content of the
  database file it connects
  to, \<open>now1\<close>, \<open>now2\<close> and \<open>now3\<close> the three readings of
  the clock. The prints and the
  read-only preview query before \<^verbatim>\<open>conn.close()\<close> are left out.
\<close>

definition load_incremental ::
  "datetime \<Rightarrow> datetime \<Rightarrow> datetime \<Rightarrow> store \<Rightarrow> string \<Rightarrow> canonical list \<Rightarrow> int
     \<Rightarrow> (py_exception + run_log) \<times> store conn" where
  "load_incremental now1 now2 now3 db_path source_file validos rejected_count =
     (db_bind ensure_ciudades (\<lambda>_.
      db_bind migrate_personas_limpias_if_needed (\<lambda>_.
      db_bind ensure_personas_limpias (\<lambda>_.
      db_bind ensure_etl_runs (\<lambda>_.
      let started_at = isoformat now1;
          run_id = strftime_seconds now2;
          processed_at = isoformat now3
      in
      db_bind (execute_query count_personas) (\<lambda>before.
      db_bind (insert_validos processed_at run_id validos) (\<lambda>_.
      db_bind commit (\<lambda>_.
      db_bind (execute_query count_personas) (\<lambda>after.
      let inserted_new = after - before;
          ignored_duplicates = int (length validos) - inserted_new
      in
      db_bind (execute_dml (insert_etl_run
                 (run_id, started_at, source_file, int (length validos), rejected_count,
                  inserted_new, ignored_duplicates))) (\<lambda>_.
      db_bind commit (\<lambda>_.
      db_bind close (\<lambda>_.
      db_return \<lparr>log_run_id = run_id, filas_antes = before, filas_despues = after,
                 inserted_new = inserted_new, ignored_duplicates = ignored_duplicates\<rparr>))))))))))))
       (connect db_path)"

section \<open>Load: etl\_batch.py\<close>

definition ensure_schema :: "(store, unit) db" where
  "ensure_schema =
     db_bind (execute_ddl create_ciudades) (\<lambda>_.
     db_bind (execute_ddl create_personas_limpias) (\<lambda>_.
     execute_ddl create_etl_runs))"

text \<open>
  \<^verbatim>\<open>load_batch\<close> works on the connection it is given and leaves it
  open; \<open>now1\<close> is
  the clock reading of \<^verbatim>\<open>make_run_id\<close>, \<open>now2\<close> that of
  \<^verbatim>\<open>started_at\<close>.
\<close>

definition load_batch ::
  "datetime \<Rightarrow> datetime \<Rightarrow> string \<Rightarrow> canonical list \<Rightarrow> int \<Rightarrow> (store, run_log) db" where
  "load_batch now1 now2 source_file validos rejected_count =
     db_bind ensure_schema (\<lambda>_.
     let run_id = make_run_id now1 source_file;
         started_at = isoformat now2;
         processed_at = started_at
     in
     db_bind (execute_query count_personas) (\<lambda>before.
     db_bind (insert_validos processed_at run_id validos) (\<lambda>_.
     db_bind commit (\<lambda>_.
     db_bind (execute_query count_personas) (\<lambda>after.
     let inserted_new = after - before;
         ignored = int (length validos) - inserted_new
     in
     db_bind (execute_dml (insert_etl_run
                (run_id, started_at, source_file, int (length validos), rejected_count,
                 inserted_new, ignored))) (\<lambda>_.
     db_bind commit (\<lambda>_.
     db_return \<lparr>log_run_id = run_id, filas_antes = before, filas_despues = after,
                inserted_new = inserted_new, ignored_duplicates = ignored\<rparr>)))))))"




section \<open>Load: etl\_relational.py\<close>

definition ensure_schema_relational :: "(store, unit) db" where
  "ensure_schema_relational =
     db_bind (execute_ddl create_ciudades) (\<lambda>_. execute_ddl create_personas_limpias_relational)"

fun insert_validos_relational :: "canonical list \<Rightarrow> (store, unit) db" where
  "insert_validos_relational [] = db_return ()"
| "insert_validos_relational ((nombre, edad, ciudad) # rest) =
     db_bind (get_or_create_city_id ciudad) (\<lambda>ciudad_id.
     db_bind (execute_dml (insert_or_ignore_persona_relational (nombre, edad, ciudad_id)))
       (\<lambda>_. insert_validos_relational rest))"

text \<open>
  \<^verbatim>\<open>load_relational\<close> returns before connecting when there is nothing
  to load; the
  result is the pair \<^verbatim>\<open>(insertados, ignorados)\<close> it prints.
\<close>

definition load_relational ::
  "store \<Rightarrow> canonical list \<Rightarrow> (py_exception + (int \<times> int) option) \<times> store conn option" where
  "load_relational db_path validos =
     (if validos = [] then (Inr None, None)
      else
        case
          (db_bind ensure_schema_relational (\<lambda>_.
           db_bind (execute_query count_personas) (\<lambda>antes.
           db_bind (insert_validos_relational validos) (\<lambda>_.
           db_bind commit (\<lambda>_.
           db_bind (execute_query count_personas) (\<lambda>despues.
           let insertados = despues - antes;
               ignorados = int (length validos) - insertados
           in
           db_bind close (\<lambda>_. db_return (Some (insertados, ignorados))))))))) (connect db_path)
        of (r, c) \<Rightarrow> (r, Some c))"

section \<open>Load: etl\_refactor.py and etl\_from\_csv.py\<close>

text \<open>
  The two first programs keep one flat table \<^verbatim>\<open>personas_limpias(id, nombre,
  edad,
  ciudad)\<close> in datos_etl.db, and rebuild it through
  \<^verbatim>\<open>personas_limpias_new\<close> with
  \<^verbatim>\<open>UNIQUE(nombre, edad, ciudad)\<close> on every load. The text of
  \<^verbatim>\<open>ensure_table_with_unique\<close> and of \<^verbatim>\<open>load\<close>
  is the same in both files.
\<close>

type_synonym flat_row = "int \<times> string \<times> int \<times> string"

record flat_store =
  flat_personas_limpias :: "flat_row table option"
  flat_personas_limpias_new :: "flat_row table option"

definition empty_flat_store :: flat_store where
  "empty_flat_store = \<lparr>flat_personas_limpias = None, flat_personas_limpias_new = None\<rparr>"

text \<open>\<^verbatim>\<open>CREATE TABLE IF NOT EXISTS personas_limpias_new (...)\<close>\<close>

definition flat_create_new :: "flat_store \<Rightarrow> py_exception + flat_store" where
  "flat_create_new st =
     Inr (case flat_personas_limpias_new st of
            None \<Rightarrow> st\<lparr>flat_personas_limpias_new := Some (Table [] 0)\<rparr>
          | Some _ \<Rightarrow> st)"

text \<open>
  One row of \<^verbatim>\<open>INSERT OR IGNORE INTO ... (nombre, edad, ciudad)\<close>
  into a table with
  \<^verbatim>\<open>UNIQUE(nombre, edad, ciudad)\<close>.
\<close>

definition flat_insert_row :: "canonical \<Rightarrow> flat_row table \<Rightarrow> flat_row table" where
  "flat_insert_row v t =
     (let new_id = next_rowid (map fst (table_rows t)) (table_seq t) in
      if v \<in> set (map snd (table_rows t)) then Table (table_rows t) new_id
      else Table (table_rows t @ [(new_id, v)]) new_id)"

text \<open>
  \<^verbatim>\<open>INSERT OR IGNORE INTO personas_limpias_new (nombre, edad, ciudad)
  SELECT nombre,
  edad, ciudad FROM personas_limpias\<close>: the statement names the old table, which must
  exist.
\<close>

definition flat_copy_into_new :: "flat_store \<Rightarrow> py_exception + flat_store" where
  "flat_copy_into_new st =
     (case flat_personas_limpias_new st of
        None \<Rightarrow> Inl OperationalError
      | Some t \<Rightarrow>
          (case flat_personas_limpias st of
             None \<Rightarrow> Inl OperationalError
           | Some old \<Rightarrow>
               Inr (st\<lparr>flat_personas_limpias_new :=
                      Some (fold flat_insert_row (map snd (table_rows old)) t)\<rparr>)))"

text \<open>\<^verbatim>\<open>DROP TABLE IF EXISTS personas_limpias\<close>\<close>

definition flat_drop_if_exists :: "flat_store \<Rightarrow> py_exception + flat_store" where
  "flat_drop_if_exists st = Inr (st\<lparr>flat_personas_limpias := None\<rparr>)"

text \<open>\<^verbatim>\<open>ALTER TABLE personas_limpias_new RENAME TO personas_limpias\<close>\<close>

definition flat_rename_new :: "flat_store \<Rightarrow> py_exception + flat_store" where
  "flat_rename_new st =
     (case flat_personas_limpias_new st of
        None \<Rightarrow> Inl OperationalError
      | Some t \<Rightarrow>
          (case flat_personas_limpias st of
             Some _ \<Rightarrow> Inl OperationalError
           | None \<Rightarrow> Inr (st\<lparr>flat_personas_limpias := Some t, flat_personas_limpias_new := None\<rparr>)))"

text \<open>\<^verbatim>\<open>SELECT COUNT(*) FROM personas_limpias\<close>\<close>

definition flat_count :: "flat_store \<Rightarrow> py_exception + int" where
  "flat_count st =
     (case flat_personas_limpias st of
        None \<Rightarrow> Inl OperationalError
      | Some t \<Rightarrow> Inr (int (length (table_rows t))))"

text \<open>
  One row of \<^verbatim>\<open>executemany("INSERT OR IGNORE INTO personas_limpias (nombre,
  edad,
  ciudad) VALUES (?, ?, ?)", datos_limpios)\<close>.
\<close>

definition flat_insert :: "canonical \<Rightarrow> flat_store \<Rightarrow> py_exception + flat_store" where
  "flat_insert v st =
     (case flat_personas_limpias st of
        None \<Rightarrow> Inl OperationalError
      | Some t \<Rightarrow>
          if \<not> fits_int64 (fst (snd v)) then Inl OverflowError
          else Inr (st\<lparr>flat_personas_limpias := Some (flat_insert_row v t)\<rparr>))"

fun executemany_flat_insert :: "canonical list \<Rightarrow> (flat_store, unit) db" where
  "executemany_flat_insert [] = db_return ()"
| "executemany_flat_insert (v # rest) =
     db_bind (execute_dml (flat_insert v)) (\<lambda>_. executemany_flat_insert rest)"

definition ensure_table_with_unique :: "(flat_store, unit) db" where
  "ensure_table_with_unique =
     db_bind (execute_ddl flat_create_new) (\<lambda>_.
     db_bind (execute_dml flat_copy_into_new) (\<lambda>_.
     db_bind (execute_ddl flat_drop_if_exists) (\<lambda>_.
     execute_ddl flat_rename_new)))"

text \<open>
  \<^verbatim>\<open>load\<close>: nothing is done for an empty list; otherwise the result
  is the pair
  \<^verbatim>\<open>(insertados, ignorados)\<close> it prints.
\<close>

definition load ::
  "flat_store \<Rightarrow> canonical list \<Rightarrow> (py_exception + (int \<times> int) option) \<times> flat_store conn option"
where
  "load db_path datos_limpios =
     (if datos_limpios = [] then (Inr None, None)
      else
        case
          (db_bind ensure_table_with_unique (\<lambda>_.
           db_bind (execute_query flat_count) (\<lambda>antes.
           db_bind (executemany_flat_insert datos_limpios) (\<lambda>_.
           db_bind commit (\<lambda>_.
           db_bind (execute_query flat_count) (\<lambda>despues.
           let insertados = despues - antes;
               ignorados = int (length datos_limpios) - insertados
           in
           db_bind close (\<lambda>_. db_return (Some (insertados, ignorados))))))))) (connect db_path)
        of (r, c) \<Rightarrow> (r, Some c))"

section \<open>Notions used to state the properties\<close>

subsection \<open>Reading a store\<close>

text \<open>
  The \<^verbatim>\<open>(nombre, edad, ciudad_id)\<close> triples of the rows of
  \<^verbatim>\<open>personas_limpias\<close>, of either generation, in the order of the
  rows; the row count of \<^verbatim>\<open>SELECT COUNT(*)\<close> is the length of this
  list.
\<close>

definition person_keys :: "store \<Rightarrow> persona_key list" where
  "person_keys st = (case personas_limpias st of None \<Rightarrow> [] | Some p \<Rightarrow> personas_keys p)"


text \<open>
  The id \<^verbatim>\<open>SELECT ciudad_id FROM ciudades WHERE nombre = ?\<close> finds
  for a city name.
\<close>

definition ciudad_id_of :: "store \<Rightarrow> string \<Rightarrow> int option" where
  "ciudad_id_of st ciudad =
     (case ciudades st of
        None \<Rightarrow> None
      | Some t \<Rightarrow> map_option fst (find (\<lambda>r. snd r = ciudad) (table_rows t)))"

text \<open>
  The triple a canonical record is stored under: its city replaced by the city's id.
\<close>

fun resolved_key :: "store \<Rightarrow> canonical \<Rightarrow> persona_key option" where
  "resolved_key st (nombre, edad, ciudad) =
     map_option (\<lambda>ciudad_id. (nombre, edad, ciudad_id)) (ciudad_id_of st ciudad)"

text \<open>
  The rows of \<^verbatim>\<open>personas_limpias_new\<close>, none when the table does not
  exist.
\<close>

definition staging_rows :: "store \<Rightarrow> persona_row list" where
  "staging_rows st = (case personas_limpias_new st of None \<Rightarrow> [] | Some t \<Rightarrow> table_rows t)"

text \<open>The table the migration copies into: the one left behind, or a new empty one.\<close>

definition staging_table :: "store \<Rightarrow> persona_row table" where
  "staging_table st = (case personas_limpias_new st of None \<Rightarrow> Table [] 0 | Some t \<Rightarrow> t)"

text \<open>
  No two rows of \<^verbatim>\<open>personas_limpias\<close> share
  \<^verbatim>\<open>(nombre, edad, ciudad_id)\<close>.
\<close>

definition personas_unique :: "store \<Rightarrow> bool" where
  "personas_unique st =
     (case personas_limpias st of None \<Rightarrow> True | Some p \<Rightarrow> distinct (personas_keys p))"

text \<open>
  A store in which \<^verbatim>\<open>personas_limpias\<close> satisfies the constraints
  both generations of its schema declare (\<^verbatim>\<open>persona_id\<close> PRIMARY KEY,
  \<^verbatim>\<open>UNIQUE(nombre, edad, ciudad_id)\<close>) and
  \<^verbatim>\<open>personas_limpias_new\<close> is absent or holds no row. A migration
  whose transaction is not committed leaves the new table behind empty, so this is how the
  programs leave the database.
\<close>

definition store_ok :: "store \<Rightarrow> bool" where
  "store_ok st =
     ((case personas_limpias st of
         None \<Rightarrow> True
       | Some p \<Rightarrow> distinct (personas_ids p) \<and> distinct (personas_keys p))
      \<and> staging_rows st = [])"

text \<open>
  A row of the older generation with the two audit columns added.
\<close>

fun with_audit :: "string \<Rightarrow> string \<Rightarrow> persona_rel_row \<Rightarrow> persona_row" where
  "with_audit processed_at run_id (persona_id, nombre, edad, ciudad_id) =
     (persona_id, nombre, edad, ciudad_id, processed_at, run_id)"

subsection \<open>Sequences of operations\<close>

text \<open>
  The operations of the schema manager, the migration and the loaders on a connection, with
  their arguments; \<open>Reconnect\<close> is a new process that opens the database file,
  and \<^verbatim>\<open>load_incremental\<close> opens the file itself.
\<close>

datatype operation =
    Reconnect
  | Commit
  | Close
  | EnsureCiudades
  | MigratePersonasLimpiasIfNeeded
  | EnsurePersonasLimpias
  | EnsureEtlRuns
  | GetOrCreateCityId string
  | InsertValidos string string "canonical list"
  | InsertEtlRun run_row
  | LoadIncremental datetime datetime datetime string "canonical list" int
  | EnsureSchema
  | LoadBatch datetime datetime string "canonical list" int
  | EnsureSchemaRelational
  | InsertValidosRelational "canonical list"

text \<open>The connection an operation leaves, whether it returns or raises.\<close>

fun run_operation :: "operation \<Rightarrow> store conn \<Rightarrow> store conn" where
  "run_operation Reconnect c = connect (durable c)"
| "run_operation (LoadIncremental now1 now2 now3 source_file validos rejected_count) c =
     snd (load_incremental now1 now2 now3 (durable c) source_file validos rejected_count)"
| "run_operation Commit c = snd (commit c)"
| "run_operation Close c = snd (close c)"
| "run_operation EnsureCiudades c = snd (ensure_ciudades c)"
| "run_operation MigratePersonasLimpiasIfNeeded c = snd (migrate_personas_limpias_if_needed c)"
| "run_operation EnsurePersonasLimpias c = snd (ensure_personas_limpias c)"
| "run_operation EnsureEtlRuns c = snd (ensure_etl_runs c)"
| "run_operation (GetOrCreateCityId ciudad) c = snd (get_or_create_city_id ciudad c)"
| "run_operation (InsertValidos processed_at run_id validos) c =
     snd (insert_validos processed_at run_id validos c)"
| "run_operation (InsertEtlRun r) c = snd (execute_dml (insert_etl_run r) c)"
| "run_operation EnsureSchema c = snd (ensure_schema c)"
| "run_operation (LoadBatch now1 now2 source_file validos rejected_count) c =
     snd (load_batch now1 now2 source_file validos rejected_count c)"
| "run_operation EnsureSchemaRelational c = snd (ensure_schema_relational c)"
| "run_operation (InsertValidosRelational validos) c = snd (insert_validos_relational validos c)"

text \<open>
  A statement on a closed connection raises \<^verbatim>\<open>ProgrammingError\<close> and
  changes nothing, so only an operation that opens a connection has an effect after
  \<^verbatim>\<open>close()\<close>.
\<close>

fun opens_connection :: "operation \<Rightarrow> bool" where
  "opens_connection Reconnect = True"
| "opens_connection (LoadIncremental now1 now2 now3 source_file validos rejected_count) = True"
| "opens_connection _ = False"

definition apply_operation :: "operation \<Rightarrow> store conn \<Rightarrow> store conn" where
  "apply_operation op c = (if closed c \<and> \<not> opens_connection op then c else run_operation op c)"

text \<open>
  Both the store the connection sees and the store the file holds are as
  \<open>store_ok\<close> asks;
  \<open>stmt_keeps\<close> says that a statement keeps \<open>store_ok\<close> when it
  succeeds.
\<close>

definition conn_ok :: "store conn \<Rightarrow> bool" where
  "conn_ok c = (store_ok (working c) \<and> store_ok (durable c))"

text \<open>
  A function of the programs keeps a property of the connection, whether it returns or raises.
\<close>

definition preserves :: "('s conn \<Rightarrow> bool) \<Rightarrow> ('s, 'a) db \<Rightarrow> bool" where
  "preserves I m = (\<forall>c. I c \<longrightarrow> I (snd (m c)))"

definition stmt_keeps :: "(store \<Rightarrow> py_exception + store) \<Rightarrow> bool" where
  "stmt_keeps stmt = (\<forall>s s'. store_ok s \<longrightarrow> stmt s = Inr s' \<longrightarrow> store_ok s')"

subsection \<open>The part the two loaders share\<close>

text \<open>
  What \<^verbatim>\<open>INSERT OR IGNORE\<close> does to the list of triples.
\<close>

definition add_key :: "'a \<Rightarrow> 'a list \<Rightarrow> 'a list" where
  "add_key k ks = (if k \<in> set ks then ks else ks @ [k])"

text \<open>
  The city table after \<^verbatim>\<open>get_or_create_city_id\<close>, and the table of
  persons after one insert.
\<close>

definition ciudades_after :: "string \<Rightarrow> ciudad_row table \<Rightarrow> ciudad_row table" where
  "ciudades_after ciudad t =
     (let new_id = next_rowid (map fst (table_rows t)) (table_seq t) in
      if ciudad \<in> snd ` set (table_rows t) then Table (table_rows t) new_id
      else Table (table_rows t @ [(new_id, ciudad)]) new_id)"

definition personas_after ::
  "string \<times> int \<times> int \<times> string \<times> string \<Rightarrow> persona_row table \<Rightarrow> persona_row table" where
  "personas_after params t =
     (case params of (nombre, edad, ciudad_id, processed_at, run_id) \<Rightarrow>
        let new_id = next_rowid (map fst (table_rows t)) (table_seq t) in
        if (nombre, edad, ciudad_id) \<in> persona_key ` set (table_rows t) then Table (table_rows t) new_id
        else Table (table_rows t @ [(new_id, nombre, edad, ciudad_id, processed_at, run_id)]) new_id)"

text \<open>
  \<^verbatim>\<open>load_incremental\<close> and \<^verbatim>\<open>load_batch\<close> run
  the same statements between the schema step and the end: the count, the loop, the commit,
  the count, the audit row and the commit. The lemmas \<open>load_incremental_tail\<close>
  and \<open>load_batch_tail\<close> below show that each loader is its schema step followed
  by this.
\<close>

definition load_tail ::
  "string \<Rightarrow> string \<Rightarrow> string \<Rightarrow> string \<Rightarrow> canonical list \<Rightarrow> int \<Rightarrow> (store, run_log) db" where
  "load_tail run_id started_at processed_at source_file validos rejected_count =
     db_bind (execute_query count_personas) (\<lambda>before.
     db_bind (insert_validos processed_at run_id validos) (\<lambda>_.
     db_bind commit (\<lambda>_.
     db_bind (execute_query count_personas) (\<lambda>after.
     db_bind (execute_dml (insert_etl_run
                (run_id, started_at, source_file, int (length validos), rejected_count,
                 after - before, int (length validos) - (after - before)))) (\<lambda>_.
     db_bind commit (\<lambda>_.
     db_return \<lparr>log_run_id = run_id, filas_antes = before, filas_despues = after,
                inserted_new = after - before,
                ignored_duplicates = int (length validos) - (after - before)\<rparr>))))))"

text \<open>
  What a load from the store \<open>st\<close> to the store \<open>st'\<close> with the log
  \<open>log\<close> has done with the records: the two counters add up to the number of
  records; every record has a triple in \<open>st'\<close>, held by exactly one row when
  \<open>st\<close> did not hold it; and \<^verbatim>\<open>inserted_new\<close> is the
  number of distinct triples of the batch that \<open>st\<close> did not hold.
\<close>

definition load_outcome :: "store \<Rightarrow> store \<Rightarrow> run_log \<Rightarrow> canonical list \<Rightarrow> bool" where
  "load_outcome st st' log validos =
     (inserted_new log + ignored_duplicates log = int (length validos)
      \<and> (\<forall>v \<in> set validos. \<exists>k. resolved_key st' v = Some k
            \<and> (k \<notin> set (person_keys st) \<longrightarrow> count_list (person_keys st') k = 1))
      \<and> inserted_new log
          = int (card (set (List.map_filter (resolved_key st') validos) - set (person_keys st))))"

subsection \<open>Sample inputs\<close>

text \<open>
  Three clock readings: the first two within one second, the third a second later.
\<close>

definition clock_a :: datetime where
  "clock_a = \<lparr>year = 2024, month = 1, day = 2, hour = 3, minute = 4, second = 5, microsecond = 6\<rparr>"

definition clock_b :: datetime where
  "clock_b = \<lparr>year = 2024, month = 1, day = 2, hour = 3, minute = 4, second = 5, microsecond = 7\<rparr>"


text \<open>
  A database as etl_relational.py leaves it.
\<close>

definition old_store :: store where
  "old_store =
     \<lparr>ciudades = Some (Table [(1, ''Lima''), (2, ''Cusco'')] 2),
      personas_limpias = Some (Relational (Table [(1, ''Ana'', 30, 1), (2, ''Bo'', 40, 2)] 2)),
      personas_limpias_new = None, etl_runs = None\<rparr>"

definition sample_validos :: "canonical list" where
  "sample_validos = [(''Ana'', 30, ''Lima''), (''Ana'', 30, ''Lima''), (''Bo'', 40, ''Cusco'')]"


section \<open>Properties of the transform\<close>

lemma transform_loop_append:
  "transform_loop m rows v r =
     (v @ map projr (filter (\<lambda>x. \<not> isl x) (map (transform_row m) rows)),
      r @ map projl (filter isl (map (transform_row m) rows)))"
  by (induction rows arbitrary: v r) (auto split: sum.splits)

lemma transform_loop_batch_append:
  "transform_loop_batch m rows v r =
     (v @ map projr (filter (\<lambda>x. \<not> isl x) (map (transform_row_batch m) rows)),
      r @ map projl (filter isl (map (transform_row_batch m) rows)))"
  by (induction rows arbitrary: v r) (auto split: sum.splits)

lemma map_Inl_projl: "map Inl (map projl (filter isl xs)) = filter isl xs"
  by (induction xs) auto

lemma map_Inr_projr: "map Inr (map projr (filter (\<lambda>x. \<not> isl x) xs)) = filter (\<lambda>x. \<not> isl x) xs"
  by (induction xs) auto

lemma length_filter_isl: "length (filter (\<lambda>x. \<not> isl x) xs) + length (filter isl xs) = length xs"
  by (induction xs) auto

text \<open>
  C2. For every batch and every threshold, both versions of
  \<^verbatim>\<open>transform_with_rejections\<close> split the input in two: the outcome
  of each row is
  either a valid record or a rejected one, \<^verbatim>\<open>validos\<close> is the list of
  the valid
  outcomes in the order of the input, \<^verbatim>\<open>rechazados\<close> the list of the
  rejected ones in
  the order of the input, and the two lengths add up to the length of the input.
\<close>

theorem transform_partitions_input:
  "(case transform_with_rejections datos_crudos edad_min of
      (validos, rechazados) \<Rightarrow>
        length validos + length rechazados = length datos_crudos
        \<and> map Inr validos = filter (\<lambda>x. \<not> isl x) (map (transform_row edad_min) datos_crudos)
        \<and> map Inl rechazados = filter isl (map (transform_row edad_min) datos_crudos))
   \<and> (case transform_with_rejections_batch datos_crudos edad_min of
      (validos, rechazados) \<Rightarrow>
        length validos + length rechazados = length datos_crudos
        \<and> map Inr validos
            = filter (\<lambda>x. \<not> isl x) (map (transform_row_batch edad_min) datos_crudos)
        \<and> map Inl rechazados = filter isl (map (transform_row_batch edad_min) datos_crudos))"
  unfolding transform_with_rejections_def transform_with_rejections_batch_def
    transform_loop_append transform_loop_batch_append
  using length_filter_isl [of "map (transform_row edad_min) datos_crudos"]
    length_filter_isl [of "map (transform_row_batch edad_min) datos_crudos"]
  by (simp add: map_Inl_projl map_Inr_projr del: map_map)

theorem transform_partitions_input_witness:
  "length (fst (transform_with_rejections
       [ [''nombre'' \<mapsto> Some ''  guillermo '', ''edad'' \<mapsto> Some ''26'', ''ciudad'' \<mapsto> Some ''san luis''],
        [''nombre'' \<mapsto> Some ''Naomi '', ''edad'' \<mapsto> Some ''23'', ''ciudad'' \<mapsto> Some '' san juan''],
        [''nombre'' \<mapsto> Some ''Pedro'', ''edad'' \<mapsto> None]] 25))
   + length (snd (transform_with_rejections
       [ [''nombre'' \<mapsto> Some ''  guillermo '', ''edad'' \<mapsto> Some ''26'', ''ciudad'' \<mapsto> Some ''san luis''],
        [''nombre'' \<mapsto> Some ''Naomi '', ''edad'' \<mapsto> Some ''23'', ''ciudad'' \<mapsto> Some '' san juan''],
        [''nombre'' \<mapsto> Some ''Pedro'', ''edad'' \<mapsto> None]] 25)) = 3"
  using transform_partitions_input [of
       "[ [''nombre'' \<mapsto> Some ''  guillermo '', ''edad'' \<mapsto> Some ''26'', ''ciudad'' \<mapsto> Some ''san luis''],
        [''nombre'' \<mapsto> Some ''Naomi '', ''edad'' \<mapsto> Some ''23'', ''ciudad'' \<mapsto> Some '' san juan''],
        [''nombre'' \<mapsto> Some ''Pedro'', ''edad'' \<mapsto> None]]" 25]
  by (simp add: case_prod_beta)

lemma has_required_cols_iff:
  "has_required_cols row \<longleftrightarrow> row ''nombre'' \<noteq> None \<and> row ''edad'' \<noteq> None \<and> row ''ciudad'' \<noteq> None"
  by (auto simp: has_required_cols_def required_cols_def)

text \<open>
  C7. For every raw row and every threshold, the reason
  \<^verbatim>\<open>transform_with_rejections\<close>
  (etl_incremental_audit.py, etl_relational.py) gives is the reason of the first of the
  five stages, in the order of the specification, that fails, and the row is valid when
  none fails. In particular a row whose three values are strings and whose age does not
  parse is rejected with \<^verbatim>\<open>Edad no convertible a int\<close> whatever the
  threshold is.
\<close>

theorem reason_is_first_failing_stage:
  "motivo_of (transform_row edad_min row) = map_option reason_text (spec_first_failure edad_min row)
   \<and> (row ''nombre'' = Some (Some n) \<and> row ''edad'' = Some (Some e) \<and> row ''ciudad'' = Some (Some c)
        \<and> py_int e = None \<longrightarrow>
      (\<forall>m. transform_row m row =
         Inl \<lparr>rj_nombre = Some n, rj_edad = Some e, rj_ciudad = Some c,
              motivo = ''Edad no convertible a int''\<rparr>))"
  by (auto simp: motivo_of_def transform_row_def has_required_cols_iff spec_first_failure_def
      spec_stages_def required_cols_def dict_get_def normalize_text_def or_empty_def
      split: option.splits)

theorem reason_is_first_failing_stage_witness:
  "py_int ''error'' = None
   \<and> (\<forall>m. transform_row m
         [''nombre'' \<mapsto> Some ''Pedro'', ''edad'' \<mapsto> Some ''error'', ''ciudad'' \<mapsto> Some ''Lima''] =
         Inl \<lparr>rj_nombre = Some ''Pedro'', rj_edad = Some ''error'', rj_ciudad = Some ''Lima'',
              motivo = ''Edad no convertible a int''\<rparr>)"
proof -
  have h: "py_int ''error'' = None"
    by code_simp
  show ?thesis
    using h reason_is_first_failing_stage [of 25
        "[''nombre'' \<mapsto> Some ''Pedro'', ''edad'' \<mapsto> Some ''error'', ''ciudad'' \<mapsto> Some ''Lima'']"
        "''Pedro''" "''error''" "''Lima''"]
    by simp
qed

section \<open>Properties of the store and the loaders\<close>

lemma db_bind_Inr [simp]: "m c = (Inr x, c') \<Longrightarrow> db_bind m f c = f x c'"
  by (simp add: db_bind_def)

lemma db_bind_Inl [simp]: "m c = (Inl e, c') \<Longrightarrow> db_bind m f c = (Inl e, c')"
  by (simp add: db_bind_def)

lemma db_bind_eq_Inr:
  "db_bind m f c = (Inr y, c'') \<longleftrightarrow> (\<exists>x c'. m c = (Inr x, c') \<and> f x c' = (Inr y, c''))"
  by (auto simp: db_bind_def split: prod.splits sum.splits)

lemma persona_key_with_audit [simp]: "persona_key (with_audit pa rid r) = rel_key r"
  by (cases r) simp

lemma fst_with_audit [simp]: "fst (with_audit pa rid r) = fst r"
  by (cases r) simp

lemma copy_row_fresh:
  "fst r \<notin> set (map fst acc) \<Longrightarrow> rel_key r \<notin> set (map persona_key acc) \<Longrightarrow>
   copy_row pa rid r (Table acc sq) = Table (acc @ [with_audit pa rid r]) (max sq (fst r))"
  by (cases r) (simp add: copy_row_def)

lemma fold_copy_row:
  "distinct (map fst rs) \<Longrightarrow> distinct (map rel_key rs) \<Longrightarrow>
   set (map fst rs) \<inter> set (map fst acc) = {} \<Longrightarrow>
   set (map rel_key rs) \<inter> set (map persona_key acc) = {} \<Longrightarrow>
   fold (copy_row pa rid) rs (Table acc sq)
     = Table (acc @ map (with_audit pa rid) rs) (fold max (map fst rs) sq)"
proof (induction rs arbitrary: acc sq)
  case Nil
  then show ?case by simp
next
  case (Cons r rs)
  have fresh: "fst r \<notin> set (map fst acc)" "rel_key r \<notin> set (map persona_key acc)"
    using Cons.prems by auto
  have step: "copy_row pa rid r (Table acc sq) = Table (acc @ [with_audit pa rid r]) (max sq (fst r))"
    using fresh by (rule copy_row_fresh)
  have "fold (copy_row pa rid) rs (Table (acc @ [with_audit pa rid r]) (max sq (fst r)))
          = Table ((acc @ [with_audit pa rid r]) @ map (with_audit pa rid) rs)
              (fold max (map fst rs) (max sq (fst r)))"
    using Cons.prems by (intro Cons.IH) auto
  then show ?case
    by (simp add: step max.commute)
qed

lemma migrate_relational:
  assumes p: "personas_limpias (working c) = Some (Relational t)"
    and ids: "distinct (map fst (table_rows t))"
    and keys: "distinct (map rel_key (table_rows t))"
    and staging: "staging_rows (working c) = []"
  shows "migrate_personas_limpias_if_needed c =
           (Inr (),
            \<lparr>durable = (if in_transaction c then durable c
                        else (working c)\<lparr>personas_limpias_new := Some (staging_table (working c))\<rparr>),
             working = (working c)\<lparr>personas_limpias :=
                 Some (Audited (Table (map (with_audit default_processed_at default_run_id) (table_rows t))
                    (fold max (map fst (table_rows t)) (table_seq (staging_table (working c)))))),
               personas_limpias_new := None\<rparr>,
             in_transaction = True, closed = closed c\<rparr>)"
proof -
  have s: "staging_table (working c) = Table [] (table_seq (staging_table (working c)))"
    using staging by (cases "staging_table (working c)")
      (auto simp: staging_rows_def staging_table_def split: option.splits)
  have copy: "fold (copy_row default_processed_at default_run_id) (table_rows t) (staging_table (working c))
     = Table (map (with_audit default_processed_at default_run_id) (table_rows t))
         (fold max (map fst (table_rows t)) (table_seq (staging_table (working c))))"
    using fold_copy_row [OF ids keys, of "[]" default_processed_at default_run_id
        "table_seq (staging_table (working c))"] s
    by simp
  show ?thesis
    using p copy
    by (cases c; cases "personas_limpias_new (working c)")
      (simp_all add: migrate_personas_limpias_if_needed_def table_has_column_def execute_query_def
          table_exists_def table_info_def db_return_def execute_ddl_def execute_dml_def
          create_personas_limpias_new_def copy_into_new_def drop_personas_limpias_def rename_new_def
          db_bind_def staging_table_def)
qed

lemma migrate_audited:
  "personas_limpias (working c) = Some (Audited t) \<Longrightarrow> migrate_personas_limpias_if_needed c = (Inr (), c)"
  by (simp add: migrate_personas_limpias_if_needed_def table_has_column_def execute_query_def
          table_exists_def table_info_def db_return_def db_bind_def audited_columns_def)

lemma migrate_absent:
  "personas_limpias (working c) = None \<Longrightarrow> migrate_personas_limpias_if_needed c = (Inr (), c)"
  by (simp add: migrate_personas_limpias_if_needed_def execute_query_def
          table_exists_def db_return_def db_bind_def)

lemma preserves_return [intro!]: "preserves I (db_return x)"
  by (simp add: preserves_def db_return_def)

lemma preserves_raise [intro!]: "preserves I (db_raise e)"
  by (simp add: preserves_def db_raise_def)

lemma preserves_bind [intro!]:
  "preserves I m \<Longrightarrow> (\<And>x. preserves I (f x)) \<Longrightarrow> preserves I (db_bind m f)"
  unfolding preserves_def db_bind_def
  by (auto split: prod.splits sum.splits)

lemma preserves_if [intro!]:
  "preserves I m1 \<Longrightarrow> preserves I m2 \<Longrightarrow> preserves I (if b then m1 else m2)"
  by simp

lemma preserves_execute_ddl: "stmt_keeps stmt \<Longrightarrow> preserves conn_ok (execute_ddl stmt)"
  by (auto simp: preserves_def conn_ok_def execute_ddl_def stmt_keeps_def split: sum.splits)

lemma preserves_execute_dml: "stmt_keeps stmt \<Longrightarrow> preserves conn_ok (execute_dml stmt)"
  by (auto simp: preserves_def conn_ok_def execute_dml_def stmt_keeps_def split: sum.splits)

lemma preserves_execute_query [intro!]: "preserves conn_ok (execute_query q)"
  by (auto simp: preserves_def conn_ok_def execute_query_def split: sum.splits)

lemma preserves_commit [intro!]: "preserves conn_ok commit"
  by (simp add: preserves_def conn_ok_def commit_def)

lemma preserves_close [intro!]: "preserves conn_ok close"
  by (simp add: preserves_def conn_ok_def close_def)

lemma keeps_create_ciudades: "stmt_keeps create_ciudades"
  by (auto simp: stmt_keeps_def create_ciudades_def store_ok_def staging_rows_def split: option.splits)

lemma keeps_create_personas_limpias: "stmt_keeps create_personas_limpias"
  by (auto simp: stmt_keeps_def create_personas_limpias_def store_ok_def staging_rows_def split: option.splits)

lemma keeps_create_personas_limpias_relational: "stmt_keeps create_personas_limpias_relational"
  by (auto simp: stmt_keeps_def create_personas_limpias_relational_def store_ok_def staging_rows_def
      split: option.splits)

lemma keeps_create_etl_runs: "stmt_keeps create_etl_runs"
  by (auto simp: stmt_keeps_def create_etl_runs_def store_ok_def staging_rows_def split: option.splits)

lemma keeps_insert_or_ignore_ciudad: "stmt_keeps (insert_or_ignore_ciudad nombre)"
  by (auto simp: stmt_keeps_def insert_or_ignore_ciudad_def store_ok_def staging_rows_def Let_def
      split: option.splits if_splits)

lemma keeps_insert_etl_run: "stmt_keeps (insert_etl_run r)"
  by (auto simp: stmt_keeps_def insert_etl_run_def store_ok_def staging_rows_def
      split: option.splits if_splits prod.splits)

lemma fold_max_ge: "(x::int) \<in> set xs \<Longrightarrow> x \<le> fold max xs a"
proof (induction xs arbitrary: a)
  case Nil
  then show ?case by simp
next
  case (Cons y ys)
  have mono: "\<And>b. b \<le> fold max ys b"
  proof -
    fix b :: int
    show "b \<le> fold max ys b"
      by (induction ys arbitrary: b) (auto intro: order_trans [OF max.cobounded2])
  qed
  show ?case
  proof (cases "x = y")
    case True
    then show ?thesis
      using mono [of "max y a"] by simp
  next
    case False
    then show ?thesis
      using Cons by simp
  qed
qed

lemma next_rowid_fresh: "next_rowid ids sq \<notin> set ids"
  using fold_max_ge [of "next_rowid ids sq" ids sq] by (auto simp: next_rowid_def)

lemma next_rowid_fresh_image: "next_rowid (map fst rs) sq \<notin> fst ` set rs"
  using next_rowid_fresh [of "map fst rs" sq] by simp

lemma keeps_insert_or_ignore_persona: "stmt_keeps (insert_or_ignore_persona params)"
  by (auto simp: stmt_keeps_def insert_or_ignore_persona_def store_ok_def staging_rows_def Let_def
        next_rowid_fresh_image
      split: option.splits if_splits prod.splits personas.splits)

lemma keeps_insert_or_ignore_persona_relational: "stmt_keeps (insert_or_ignore_persona_relational params)"
  by (auto simp: stmt_keeps_def insert_or_ignore_persona_relational_def store_ok_def staging_rows_def Let_def
        next_rowid_fresh_image
      split: option.splits if_splits prod.splits personas.splits)

lemmas stmt_keeps_all =
  keeps_create_ciudades keeps_create_personas_limpias keeps_create_personas_limpias_relational
  keeps_create_etl_runs keeps_insert_or_ignore_ciudad keeps_insert_etl_run
  keeps_insert_or_ignore_persona keeps_insert_or_ignore_persona_relational

lemma preserves_migrate: "preserves conn_ok migrate_personas_limpias_if_needed"
  unfolding preserves_def
proof (intro allI impI)
  fix c :: "store conn"
  assume ok: "conn_ok c"
  show "conn_ok (snd (migrate_personas_limpias_if_needed c))"
  proof (cases "personas_limpias (working c)")
    case None
    then show ?thesis using ok by (simp add: migrate_absent)
  next
    case (Some p)
    show ?thesis
    proof (cases p)
      case (Audited t)
      then show ?thesis using ok Some by (simp add: migrate_audited)
    next
      case (Relational t)
      have ids: "distinct (map fst (table_rows t))" and keys: "distinct (map rel_key (table_rows t))"
        and staging: "staging_rows (working c) = []"
        using ok Some Relational by (auto simp: conn_ok_def store_ok_def)
      have srows: "table_rows (staging_table (working c)) = []"
        using staging by (auto simp: staging_rows_def staging_table_def split: option.splits)
      have k: "map persona_key (map (with_audit default_processed_at default_run_id) (table_rows t))
                 = map rel_key (table_rows t)"
        by simp
      have i: "map fst (map (with_audit default_processed_at default_run_id) (table_rows t))
                 = map fst (table_rows t)"
        by simp
      have p: "personas_limpias (working c) = Some (Relational t)"
        using Some Relational by simp
      show ?thesis
        using ok ids keys srows
        unfolding migrate_relational [OF p ids keys staging]
        by (auto simp: conn_ok_def store_ok_def staging_rows_def k i simp del: map_map)
    qed
  qed
qed

lemma preserves_get_or_create_city_id: "preserves conn_ok (get_or_create_city_id ciudad)"
  unfolding get_or_create_city_id_def
  by (auto intro!: preserves_execute_dml stmt_keeps_all split: option.splits)

lemma preserves_insert_validos: "preserves conn_ok (insert_validos pa rid validos)"
  by (induction validos)
    (auto intro!: preserves_execute_dml stmt_keeps_all preserves_get_or_create_city_id)

lemma preserves_insert_validos_relational: "preserves conn_ok (insert_validos_relational validos)"
  by (induction validos)
    (auto intro!: preserves_execute_dml stmt_keeps_all preserves_get_or_create_city_id)

lemma preserves_ensure_schema: "preserves conn_ok ensure_schema"
  unfolding ensure_schema_def
  by (auto intro!: preserves_execute_ddl stmt_keeps_all)

lemma preserves_ensure_schema_relational: "preserves conn_ok ensure_schema_relational"
  unfolding ensure_schema_relational_def
  by (auto intro!: preserves_execute_ddl stmt_keeps_all)

lemma preserves_load_batch: "preserves conn_ok (load_batch now1 now2 source_file validos rejected_count)"
  unfolding load_batch_def Let_def
  by (auto intro!: preserves_execute_dml stmt_keeps_all preserves_ensure_schema preserves_insert_validos)

lemma preserves_load_incremental_body:
  "preserves conn_ok
     (db_bind ensure_ciudades (\<lambda>_.
      db_bind migrate_personas_limpias_if_needed (\<lambda>_.
      db_bind ensure_personas_limpias (\<lambda>_.
      db_bind ensure_etl_runs (\<lambda>_.
      let started_at = isoformat now1;
          run_id = strftime_seconds now2;
          processed_at = isoformat now3
      in
      db_bind (execute_query count_personas) (\<lambda>before.
      db_bind (insert_validos processed_at run_id validos) (\<lambda>_.
      db_bind commit (\<lambda>_.
      db_bind (execute_query count_personas) (\<lambda>after.
      let inserted_new = after - before;
          ignored_duplicates = int (length validos) - inserted_new
      in
      db_bind (execute_dml (insert_etl_run
                 (run_id, started_at, source_file, int (length validos), rejected_count,
                  inserted_new, ignored_duplicates))) (\<lambda>_.
      db_bind commit (\<lambda>_.
      db_bind close (\<lambda>_.
      db_return \<lparr>log_run_id = run_id, filas_antes = before, filas_despues = after,
                 inserted_new = inserted_new, ignored_duplicates = ignored_duplicates\<rparr>))))))))))))"
  unfolding Let_def ensure_ciudades_def ensure_personas_limpias_def ensure_etl_runs_def
  by (auto intro!: preserves_execute_dml preserves_execute_ddl stmt_keeps_all preserves_migrate
      preserves_insert_validos)

lemma conn_ok_connect: "store_ok st \<Longrightarrow> conn_ok (connect st)"
  by (simp add: conn_ok_def connect_def)

lemma conn_ok_run_operation: "conn_ok c \<Longrightarrow> conn_ok (run_operation op c)"
proof (cases op)
  case Reconnect
  assume "conn_ok c"
  then show ?thesis using Reconnect by (simp add: conn_ok_def connect_def)
next
  case (LoadIncremental now1 now2 now3 source_file validos rejected_count)
  assume "conn_ok c"
  then have "conn_ok (connect (durable c))"
    by (simp add: conn_ok_def connect_def)
  then show ?thesis
    using preserves_load_incremental_body [of now1 now2 now3 validos source_file rejected_count]
    unfolding LoadIncremental run_operation.simps load_incremental_def preserves_def
    by blast
qed (insert preserves_commit preserves_close preserves_migrate preserves_get_or_create_city_id
      preserves_insert_validos preserves_insert_validos_relational preserves_ensure_schema
      preserves_ensure_schema_relational preserves_load_batch
      preserves_execute_ddl [OF keeps_create_ciudades] preserves_execute_ddl [OF keeps_create_personas_limpias]
      preserves_execute_ddl [OF keeps_create_etl_runs] preserves_execute_dml [OF keeps_insert_etl_run],
    auto simp: preserves_def ensure_ciudades_def ensure_personas_limpias_def ensure_etl_runs_def)

lemma store_ok_empty: "store_ok empty_store"
  by (simp add: store_ok_def empty_store_def staging_rows_def)

lemma set_add_key [simp]: "set (add_key k ks) = insert k (set ks)"
  by (auto simp: add_key_def)

lemma set_fold_add_key [simp]: "set (fold add_key ks acc) = set ks \<union> set acc"
  by (induction ks arbitrary: acc) auto

lemma length_fold_add_key:
  "length (fold add_key ks acc) = length acc + card (set ks - set acc)"
proof (induction ks arbitrary: acc)
  case Nil
  then show ?case by simp
next
  case (Cons k ks)
  show ?case
  proof (cases "k \<in> set acc")
    case True
    then have "set (k # ks) - set acc = set ks - set acc" by auto
    then show ?thesis using Cons [of acc] True by (simp add: add_key_def)
  next
    case False
    have eq: "set (k # ks) - set acc = insert k (set ks - set (acc @ [k]))"
      using False by auto
    have "k \<notin> set ks - set (acc @ [k])" by simp
    then have "card (set (k # ks) - set acc) = Suc (card (set ks - set (acc @ [k])))"
      unfolding eq by (simp add: card_insert_if)
    then show ?thesis using Cons [of "acc @ [k]"] False by (simp add: add_key_def)
  qed
qed

lemma count_list_append [simp]: "count_list (xs @ ys) k = count_list xs k + count_list ys k"
  by (induction xs) auto

lemma count_list_fold_add_key:
  "count_list (fold add_key ks acc) k =
     (if k \<in> set acc then count_list acc k else if k \<in> set ks then 1 else 0)"
proof (induction ks arbitrary: acc)
  case Nil
  then show ?case by (simp add: count_list_0_iff)
next
  case (Cons a ks)
  show ?case
    using Cons [of "add_key a acc"]
    by (auto simp: add_key_def count_list_0_iff)
qed

lemma find_append_Some: "find P xs = Some x \<Longrightarrow> find P (xs @ ys) = Some x"
  by (induction xs) (auto split: if_splits)

lemma find_append_new: "\<forall>x \<in> set xs. \<not> P x \<Longrightarrow> P y \<Longrightarrow> find P (xs @ [y]) = Some y"
  by (induction xs) auto

lemma find_in_set: "y \<in> snd ` set xs \<Longrightarrow> \<exists>i. find (\<lambda>r. snd r = y) xs = Some (i, y)"
  by (induction xs) auto

lemma find_ciudades_after:
  "\<exists>i. find (\<lambda>r. snd r = ciudad) (table_rows (ciudades_after ciudad t)) = Some (i, ciudad)"
  by (auto simp: ciudades_after_def Let_def find_in_set intro!: find_append_new)

lemma insert_or_ignore_ciudad_eq:
  "ciudades st = Some t \<Longrightarrow>
   insert_or_ignore_ciudad ciudad st = Inr (st\<lparr>ciudades := Some (ciudades_after ciudad t)\<rparr>)"
  by (simp add: insert_or_ignore_ciudad_def ciudades_after_def Let_def)

lemma get_or_create_city_id_eq:
  assumes "ciudades (working c) = Some t"
  shows "get_or_create_city_id ciudad c =
           (Inr (the (ciudad_id_of ((working c)\<lparr>ciudades := Some (ciudades_after ciudad t)\<rparr>) ciudad)),
            c\<lparr>working := (working c)\<lparr>ciudades := Some (ciudades_after ciudad t)\<rparr>, in_transaction := True\<rparr>)"
proof -
  obtain i where f: "find (\<lambda>r. snd r = ciudad) (table_rows (ciudades_after ciudad t)) = Some (i, ciudad)"
    using find_ciudades_after by blast
  show ?thesis
    using assms f
    by (simp add: get_or_create_city_id_def execute_dml_def execute_query_def
        insert_or_ignore_ciudad_eq select_ciudad_id_def db_bind_def db_return_def ciudad_id_of_def)
qed

lemma ciudad_id_of_after_stable:
  "ciudades st = Some t \<Longrightarrow> ciudad_id_of st x = Some i \<Longrightarrow>
   ciudad_id_of (st\<lparr>ciudades := Some (ciudades_after ciudad t)\<rparr>) x = Some i"
  by (auto simp: ciudad_id_of_def ciudades_after_def Let_def dest: find_append_Some)

lemma insert_or_ignore_persona_eq:
  "personas_limpias st = Some (Audited t) \<Longrightarrow>
   insert_or_ignore_persona (n, e, cid, pa, rid) st =
     (if \<not> fits_int64 e \<or> \<not> fits_int64 cid then Inl OverflowError
      else Inr (st\<lparr>personas_limpias := Some (Audited (personas_after (n, e, cid, pa, rid) t))\<rparr>))"
  by (simp add: insert_or_ignore_persona_def personas_after_def Let_def)

lemma keys_personas_after:
  "map persona_key (table_rows (personas_after (n, e, cid, pa, rid) t))
     = add_key (n, e, cid) (map persona_key (table_rows t))"
  by (simp add: personas_after_def add_key_def Let_def)




text \<open>One turn of the loader's loop on a store that holds both tables.\<close>

lemma insert_validos_Cons:
  assumes ct: "ciudades (working c) = Some ct"
    and pt: "personas_limpias (working c) = Some (Audited pt)"
  shows "insert_validos pa rid ((n, e, ci) # rest) c =
     (let st1 = (working c)\<lparr>ciudades := Some (ciudades_after ci ct)\<rparr>;
          cid = the (ciudad_id_of st1 ci)
      in if \<not> fits_int64 e \<or> \<not> fits_int64 cid
         then (Inl OverflowError, c\<lparr>working := st1, in_transaction := True\<rparr>)
         else insert_validos pa rid rest
                (c\<lparr>working := st1\<lparr>personas_limpias :=
                      Some (Audited (personas_after (n, e, cid, pa, rid) pt))\<rparr>,
                   in_transaction := True\<rparr>))"
  using pt
  by (simp add: get_or_create_city_id_eq [OF ct] Let_def execute_dml_def insert_or_ignore_persona_eq
      db_bind_def)

lemma insert_validos_result:
  assumes "ciudades (working c) = Some ct"
    and "personas_limpias (working c) = Some (Audited pt)"
    and "insert_validos pa rid vs c = (Inr (), c')"
  shows "\<exists>ct' pt'.
     ciudades (working c') = Some ct' \<and> personas_limpias (working c') = Some (Audited pt')
     \<and> personas_limpias_new (working c') = personas_limpias_new (working c)
     \<and> etl_runs (working c') = etl_runs (working c)
     \<and> durable c' = durable c \<and> closed c' = closed c
     \<and> (\<forall>x i. ciudad_id_of (working c) x = Some i \<longrightarrow> ciudad_id_of (working c') x = Some i)
     \<and> (\<forall>(n, e, ci) \<in> set vs. \<exists>cid. ciudad_id_of (working c') ci = Some cid
            \<and> fits_int64 e \<and> fits_int64 cid)
     \<and> map persona_key (table_rows pt')
         = fold add_key (List.map_filter (resolved_key (working c')) vs) (map persona_key (table_rows pt))"
  using assms
proof (induction vs arbitrary: c ct pt)
  case Nil
  then show ?case
    by (auto simp: db_return_def List.map_filter_simps)
next
  case (Cons v vs)
  obtain n e ci where v: "v = (n, e, ci)"
    by (cases v) auto
  define st1 where "st1 = (working c)\<lparr>ciudades := Some (ciudades_after ci ct)\<rparr>"
  define cid where "cid = the (ciudad_id_of st1 ci)"
  define c2 where "c2 = c\<lparr>working := st1\<lparr>personas_limpias :=
                      Some (Audited (personas_after (n, e, cid, pa, rid) pt))\<rparr>,
                   in_transaction := True\<rparr>"
  have unfold: "insert_validos pa rid (v # vs) c =
      (if \<not> fits_int64 e \<or> \<not> fits_int64 cid
         then (Inl OverflowError, c\<lparr>working := st1, in_transaction := True\<rparr>)
         else insert_validos pa rid vs c2)"
    unfolding v insert_validos_Cons [OF Cons.prems(1) Cons.prems(2)] st1_def cid_def c2_def Let_def
    by simp
  have fits: "fits_int64 e" "fits_int64 cid"
    using Cons.prems(3) unfold by (auto split: if_splits)
  have rest: "insert_validos pa rid vs c2 = (Inr (), c')"
    using Cons.prems(3) unfold fits by simp
  have c2_ct: "ciudades (working c2) = Some (ciudades_after ci ct)"
    and c2_pt: "personas_limpias (working c2) = Some (Audited (personas_after (n, e, cid, pa, rid) pt))"
    by (simp_all add: c2_def st1_def)
  obtain ct' pt' where
    ct': "ciudades (working c') = Some ct'" and pt': "personas_limpias (working c') = Some (Audited pt')"
    and new': "personas_limpias_new (working c') = personas_limpias_new (working c2)"
    and runs': "etl_runs (working c') = etl_runs (working c2)"
    and dur': "durable c' = durable c2" and cl': "closed c' = closed c2"
    and stable': "\<forall>x i. ciudad_id_of (working c2) x = Some i \<longrightarrow> ciudad_id_of (working c') x = Some i"
    and all': "\<forall>(n, e, ci) \<in> set vs. \<exists>cid. ciudad_id_of (working c') ci = Some cid
            \<and> fits_int64 e \<and> fits_int64 cid"
    and keys': "map persona_key (table_rows pt')
         = fold add_key (List.map_filter (resolved_key (working c')) vs)
             (map persona_key (table_rows (personas_after (n, e, cid, pa, rid) pt)))"
    using Cons.IH [OF c2_ct c2_pt rest] by blast
  have cid2: "ciudad_id_of (working c2) ci = Some cid"
    using find_ciudades_after [of ci ct]
    by (auto simp: c2_def st1_def cid_def ciudad_id_of_def)
  then have cid': "ciudad_id_of (working c') ci = Some cid"
    using stable' by blast
  have stable: "\<forall>x i. ciudad_id_of (working c) x = Some i \<longrightarrow> ciudad_id_of (working c') x = Some i"
  proof (intro allI impI)
    fix x i
    assume "ciudad_id_of (working c) x = Some i"
    then have "ciudad_id_of (working c2) x = Some i"
      using ciudad_id_of_after_stable [OF Cons.prems(1), of x i ci]
      by (simp add: c2_def st1_def ciudad_id_of_def)
    then show "ciudad_id_of (working c') x = Some i"
      using stable' by blast
  qed
  have keys: "map persona_key (table_rows pt')
         = fold add_key (List.map_filter (resolved_key (working c')) (v # vs)) (map persona_key (table_rows pt))"
    using keys' cid' by (simp add: v List.map_filter_simps keys_personas_after)
  show ?case
    using ct' pt' new' runs' dur' cl' stable all' keys cid' fits
    by (auto simp: v c2_def st1_def)
qed

lemma db_bind_assoc: "db_bind (db_bind m f) g = db_bind m (\<lambda>x. db_bind (f x) g)"
  by (rule ext) (simp add: db_bind_def split: prod.splits sum.splits)

lemma db_bind_return_left: "db_bind (db_return x) f = f x"
  by (rule ext) (simp add: db_bind_def db_return_def)

lemma load_batch_tail:
  "load_batch now1 now2 source_file validos rejected_count =
     db_bind ensure_schema (\<lambda>_.
       load_tail (make_run_id now1 source_file) (isoformat now2) (isoformat now2) source_file validos
         rejected_count)"
  by (simp add: load_batch_def load_tail_def Let_def)

lemma load_incremental_tail:
  "load_incremental now1 now2 now3 db_path source_file validos rejected_count =
     db_bind ensure_ciudades (\<lambda>_.
     db_bind migrate_personas_limpias_if_needed (\<lambda>_.
     db_bind ensure_personas_limpias (\<lambda>_.
     db_bind ensure_etl_runs (\<lambda>_.
     db_bind (load_tail (strftime_seconds now2) (isoformat now1) (isoformat now3) source_file validos
                rejected_count) (\<lambda>log.
     db_bind close (\<lambda>_. db_return log)))))) (connect db_path)"
  by (simp add: load_incremental_def load_tail_def Let_def db_bind_assoc db_bind_return_left)

lemma ciudad_id_of_rows_cong:
  "ciudades st = Some t \<Longrightarrow> ciudades st' = Some t' \<Longrightarrow> table_rows t' = table_rows t \<Longrightarrow>
   ciudad_id_of st' x = ciudad_id_of st x"
  by (simp add: ciudad_id_of_def)


lemma person_keys_Audited:
  "personas_limpias st = Some (Audited t) \<Longrightarrow> person_keys st = map persona_key (table_rows t)"
  by (simp add: person_keys_def)

lemma execute_query_count:
  "personas_limpias (working c) = Some p \<Longrightarrow>
   execute_query count_personas c = (Inr (int (length (person_keys (working c)))), c)"
  by (simp add: execute_query_def count_personas_def person_keys_def)

lemma load_tail_unfold:
  assumes p: "personas_limpias (working c) = Some p"
    and loop: "insert_validos pa rid vs c = (Inr (), c2)"
    and p2: "personas_limpias (working c2) = Some p2"
  shows "load_tail rid sa pa src vs rc c =
     (case insert_etl_run (rid, sa, src, int (length vs), rc,
              int (length (person_keys (working c2))) - int (length (person_keys (working c))),
              int (length vs)
                - (int (length (person_keys (working c2))) - int (length (person_keys (working c)))))
            (working c2) of
        Inl e \<Rightarrow> (Inl e, (if e = OperationalError
             then c2\<lparr>durable := working c2, in_transaction := False\<rparr>
             else c2\<lparr>durable := working c2, in_transaction := True\<rparr>))
      | Inr s \<Rightarrow>
          (Inr \<lparr>log_run_id = rid, filas_antes = int (length (person_keys (working c))),
                filas_despues = int (length (person_keys (working c2))),
                inserted_new =
                  int (length (person_keys (working c2))) - int (length (person_keys (working c))),
                ignored_duplicates = int (length vs)
                  - (int (length (person_keys (working c2))) - int (length (person_keys (working c))))\<rparr>,
           c2\<lparr>durable := s, working := s, in_transaction := False\<rparr>))"
proof -
  define c3 where "c3 = c2\<lparr>durable := working c2, in_transaction := False\<rparr>"
  have s3: "commit c2 = (Inr (), c3)"
    by (simp add: commit_def c3_def)
  have s4: "execute_query count_personas c3 = (Inr (int (length (person_keys (working c2)))), c3)"
    using execute_query_count [of c3 p2] p2 by (simp add: c3_def)
  show ?thesis
    by (simp add: load_tail_def execute_query_count [OF p] loop s3 s4)
      (simp add: db_bind_def execute_dml_def c3_def commit_def db_return_def split: sum.splits)
qed

lemma load_tail_failed_loop:
  assumes p: "personas_limpias (working c) = Some p"
    and loop: "insert_validos pa rid vs c = (Inl e, c2)"
  shows "load_tail rid sa pa src vs rc c = (Inl e, c2)"
  by (simp add: load_tail_def execute_query_count [OF p] loop)

lemma ciudad_id_of_etl_runs_update [simp]:
  "ciudad_id_of (st\<lparr>etl_runs := r\<rparr>) x = ciudad_id_of st x"
  by (simp add: ciudad_id_of_def)

lemma resolved_key_etl_runs_update [simp]:
  "resolved_key (st\<lparr>etl_runs := r\<rparr>) = resolved_key st"
  by (rule ext) auto

lemma person_keys_etl_runs_update [simp]:
  "person_keys (st\<lparr>etl_runs := r\<rparr>) = person_keys st"
  by (simp add: person_keys_def)

lemma insert_etl_run_Inr:
  "insert_etl_run (rid, sa, src, vc, rc, ins, ign) st = Inr s \<longleftrightarrow>
     (\<exists>runs. etl_runs st = Some runs \<and> rid \<notin> set (map fst runs)
        \<and> fits_int64 vc \<and> fits_int64 rc \<and> fits_int64 ins \<and> fits_int64 ign
        \<and> s = st\<lparr>etl_runs := Some (runs @ [(rid, sa, src, vc, rc, ins, ign)])\<rparr>)"
  by (auto simp: insert_etl_run_def split: option.splits)

lemma insert_validos_on_relational:
  assumes ct: "ciudades (working c) = Some ct"
    and p: "personas_limpias (working c) = Some (Relational t)"
  shows "fst (insert_validos pa rid (v # vs) c) = Inl OperationalError"
proof -
  obtain n e ci where v: "v = (n, e, ci)"
    by (cases v) auto
  show ?thesis
    using p
    by (simp add: v get_or_create_city_id_eq [OF ct] execute_dml_def insert_or_ignore_persona_def db_bind_def)
qed

text \<open>What the loop leaves, for either generation of the table.\<close>

lemma insert_validos_outcome:
  assumes ct: "ciudades (working c) = Some ct"
    and p: "personas_limpias (working c) = Some p"
    and loop: "insert_validos pa rid vs c = (Inr (), c')"
  shows "ciudades (working c') \<noteq> None
     \<and> (\<exists>p'. personas_limpias (working c') = Some p'
          \<and> (vs \<noteq> [] \<or> (\<exists>pt. p = Audited pt) \<longrightarrow> (\<exists>pt'. p' = Audited pt')))
     \<and> personas_limpias_new (working c') = personas_limpias_new (working c)
     \<and> etl_runs (working c') = etl_runs (working c)
     \<and> durable c' = durable c \<and> closed c' = closed c
     \<and> (\<forall>(n, e, ci) \<in> set vs. \<exists>cid. ciudad_id_of (working c') ci = Some cid
            \<and> fits_int64 e \<and> fits_int64 cid)
     \<and> person_keys (working c')
         = fold add_key (List.map_filter (resolved_key (working c')) vs) (person_keys (working c))"
proof (cases p)
  case (Audited pt)
  then have pt: "personas_limpias (working c) = Some (Audited pt)"
    using p by simp
  show ?thesis
    using insert_validos_result [OF ct pt loop] pt
    by (auto simp: person_keys_Audited)
next
  case (Relational t)
  then have r: "personas_limpias (working c) = Some (Relational t)"
    using p by simp
  have "vs = []"
  proof (cases vs)
    case Nil
    then show ?thesis by simp
  next
    case (Cons v rest)
    then show ?thesis
      using insert_validos_on_relational [OF ct r, of pa rid v rest] loop by simp
  qed
  then show ?thesis
    using loop ct p by (simp add: db_return_def List.map_filter_simps)
qed

lemma load_tail_success:
  assumes ct: "ciudades (working c) = Some ct"
    and p: "personas_limpias (working c) = Some p"
    and run: "load_tail rid sa pa src vs rc c = (Inr log, c')"
  shows "durable c' = working c' \<and> closed c' = closed c \<and> in_transaction c' = False
     \<and> ciudades (working c') \<noteq> None
     \<and> (\<exists>p'. personas_limpias (working c') = Some p'
          \<and> (vs \<noteq> [] \<or> (\<exists>pt. p = Audited pt) \<longrightarrow> (\<exists>pt'. p' = Audited pt')))
     \<and> personas_limpias_new (working c') = personas_limpias_new (working c)
     \<and> (\<exists>runs. etl_runs (working c) = Some runs \<and> rid \<notin> set (map fst runs)
          \<and> etl_runs (working c') = Some (runs @ [(rid, sa, src, int (length vs), rc, inserted_new log,
               ignored_duplicates log)]))
     \<and> fits_int64 (int (length vs)) \<and> fits_int64 rc
     \<and> (\<forall>(n, e, ci) \<in> set vs. \<exists>cid. ciudad_id_of (working c') ci = Some cid
            \<and> fits_int64 e \<and> fits_int64 cid)
     \<and> person_keys (working c')
         = fold add_key (List.map_filter (resolved_key (working c')) vs) (person_keys (working c))
     \<and> log_run_id log = rid
     \<and> filas_antes log = int (length (person_keys (working c)))
     \<and> filas_despues log = int (length (person_keys (working c')))
     \<and> inserted_new log = filas_despues log - filas_antes log
     \<and> ignored_duplicates log = int (length vs) - inserted_new log"
proof -
  obtain r c2 where loop: "insert_validos pa rid vs c = (r, c2)"
    by (cases "insert_validos pa rid vs c") auto
  have "r = Inr ()"
  proof (cases r)
    case (Inl e)
    then show ?thesis
      using load_tail_failed_loop [OF p, of pa rid vs e c2] loop run by simp
  next
    case (Inr u)
    then show ?thesis by simp
  qed
  then have loop: "insert_validos pa rid vs c = (Inr (), c2)"
    using loop by simp
  note out = insert_validos_outcome [OF ct p loop]
  obtain p2 where p2: "personas_limpias (working c2) = Some p2"
    and aud2: "vs \<noteq> [] \<or> (\<exists>pt. p = Audited pt) \<longrightarrow> (\<exists>pt'. p2 = Audited pt')"
    using out by blast
  define row where "row = (rid, sa, src, int (length vs), rc,
              int (length (person_keys (working c2))) - int (length (person_keys (working c))),
              int (length vs)
                - (int (length (person_keys (working c2))) - int (length (person_keys (working c)))))"
  obtain s where s: "insert_etl_run row (working c2) = Inr s"
    and c': "c' = c2\<lparr>durable := s, working := s, in_transaction := False\<rparr>"
    and log: "log = \<lparr>log_run_id = rid, filas_antes = int (length (person_keys (working c))),
                filas_despues = int (length (person_keys (working c2))),
                inserted_new =
                  int (length (person_keys (working c2))) - int (length (person_keys (working c))),
                ignored_duplicates = int (length vs)
                  - (int (length (person_keys (working c2))) - int (length (person_keys (working c))))\<rparr>"
    using run unfolding load_tail_unfold [OF p loop p2] row_def
    by (auto split: sum.splits)
  obtain runs where runs: "etl_runs (working c2) = Some runs" and fresh: "rid \<notin> set (map fst runs)"
    and f1: "fits_int64 (int (length vs))" and f2: "fits_int64 rc"
    and s_eq: "s = (working c2)\<lparr>etl_runs := Some (runs @ [row])\<rparr>"
    using s unfolding row_def insert_etl_run_Inr by blast
  show ?thesis
    using out p2 aud2 runs fresh f1 f2
    by (simp add: c' log s_eq row_def)
qed



lemma ensure_ciudades_props:
  "\<exists>c1. ensure_ciudades c = (Inr (), c1) \<and> ciudades (working c1) \<noteq> None
     \<and> personas_limpias (working c1) = personas_limpias (working c)
     \<and> personas_limpias_new (working c1) = personas_limpias_new (working c)
     \<and> etl_runs (working c1) = etl_runs (working c)
     \<and> closed c1 = closed c \<and> in_transaction c1 = in_transaction c
     \<and> (ciudades (working c) \<noteq> None \<longrightarrow> durable c = working c \<longrightarrow> c1 = c)"
  by (cases c) (auto simp: ensure_ciudades_def execute_ddl_def create_ciudades_def split: option.splits)

lemma ensure_personas_limpias_props:
  "\<exists>c1. ensure_personas_limpias c = (Inr (), c1)
     \<and> ciudades (working c1) = ciudades (working c)
     \<and> personas_limpias (working c1)
         = (case personas_limpias (working c) of None \<Rightarrow> Some (Audited (Table [] 0)) | Some p \<Rightarrow> Some p)
     \<and> personas_limpias_new (working c1) = personas_limpias_new (working c)
     \<and> etl_runs (working c1) = etl_runs (working c)
     \<and> closed c1 = closed c \<and> in_transaction c1 = in_transaction c
     \<and> (personas_limpias (working c) \<noteq> None \<longrightarrow> durable c = working c \<longrightarrow> c1 = c)"
  by (cases c) (auto simp: ensure_personas_limpias_def execute_ddl_def create_personas_limpias_def
      split: option.splits)

lemma ensure_etl_runs_props:
  "\<exists>c1. ensure_etl_runs c = (Inr (), c1)
     \<and> ciudades (working c1) = ciudades (working c)
     \<and> personas_limpias (working c1) = personas_limpias (working c)
     \<and> personas_limpias_new (working c1) = personas_limpias_new (working c)
     \<and> etl_runs (working c1) \<noteq> None
     \<and> closed c1 = closed c \<and> in_transaction c1 = in_transaction c
     \<and> (etl_runs (working c) \<noteq> None \<longrightarrow> durable c = working c \<longrightarrow> c1 = c)"
  by (cases c) (auto simp: ensure_etl_runs_def execute_ddl_def create_etl_runs_def split: option.splits)

lemma migrate_relational_any:
  assumes p: "personas_limpias (working c) = Some (Relational t)"
  shows "\<exists>c1 t1. migrate_personas_limpias_if_needed c = (Inr (), c1)
     \<and> ciudades (working c1) = ciudades (working c)
     \<and> personas_limpias (working c1) = Some (Audited t1)
     \<and> etl_runs (working c1) = etl_runs (working c)
     \<and> closed c1 = closed c"
  using p
  by (cases c; cases "personas_limpias_new (working c)")
    (simp_all add: migrate_personas_limpias_if_needed_def table_has_column_def execute_query_def
      table_exists_def table_info_def db_return_def execute_ddl_def execute_dml_def
      create_personas_limpias_new_def copy_into_new_def drop_personas_limpias_def rename_new_def
      db_bind_def)

lemma migrate_props:
  "\<exists>c1. migrate_personas_limpias_if_needed c = (Inr (), c1)
     \<and> ciudades (working c1) = ciudades (working c)
     \<and> etl_runs (working c1) = etl_runs (working c)
     \<and> closed c1 = closed c
     \<and> (personas_limpias (working c) = None \<longrightarrow> personas_limpias (working c1) = None)
     \<and> (personas_limpias (working c) \<noteq> None \<longrightarrow> (\<exists>t. personas_limpias (working c1) = Some (Audited t)))
     \<and> (store_ok (working c) \<longrightarrow> person_keys (working c1) = person_keys (working c))
     \<and> ((\<forall>t. personas_limpias (working c) \<noteq> Some (Relational t)) \<longrightarrow> c1 = c)"
proof (cases "personas_limpias (working c)")
  case None
  then show ?thesis by (simp add: migrate_absent)
next
  case (Some p)
  show ?thesis
  proof (cases p)
    case (Audited t)
    then show ?thesis using Some by (simp add: migrate_audited)
  next
    case (Relational t)
    have p: "personas_limpias (working c) = Some (Relational t)"
      using Some Relational by simp
    obtain c1 t1 where m: "migrate_personas_limpias_if_needed c = (Inr (), c1)"
      and f: "ciudades (working c1) = ciudades (working c)"
        "personas_limpias (working c1) = Some (Audited t1)"
        "etl_runs (working c1) = etl_runs (working c)" "closed c1 = closed c"
      using migrate_relational_any [OF p] by blast
    have keys: "person_keys (working c1) = person_keys (working c)" if ok: "store_ok (working c)"
    proof -
      have ids: "distinct (map fst (table_rows t))" and ks: "distinct (map rel_key (table_rows t))"
        and staging: "staging_rows (working c) = []"
        using ok p by (auto simp: store_ok_def)
      show ?thesis
        using m p unfolding migrate_relational [OF p ids ks staging]
        by (auto simp: person_keys_def)
    qed
    show ?thesis
      using m f keys p by auto
  qed
qed

lemma incremental_prefix:
  "\<exists>c1 ct pt runs.
     (\<forall>k. (db_bind ensure_ciudades (\<lambda>_.
            db_bind migrate_personas_limpias_if_needed (\<lambda>_.
            db_bind ensure_personas_limpias (\<lambda>_.
            db_bind ensure_etl_runs (\<lambda>_. k))))) (connect db) = k c1)
     \<and> ciudades (working c1) = Some ct \<and> personas_limpias (working c1) = Some (Audited pt)
     \<and> etl_runs (working c1) = Some runs \<and> closed c1 = False
     \<and> (store_ok db \<longrightarrow> map persona_key (table_rows pt) = person_keys db)
     \<and> (ciudades db \<noteq> None \<and> (\<exists>t. personas_limpias db = Some (Audited t)) \<and> etl_runs db \<noteq> None
          \<longrightarrow> c1 = connect db)"
proof -
  define c0 :: "store conn" where "c0 = connect db"
  have c0: "working c0 = db" "durable c0 = working c0" "closed c0 = False"
    by (simp_all add: c0_def connect_def)
  obtain ca where a: "ensure_ciudades c0 = (Inr (), ca)"
    and a1: "ciudades (working ca) \<noteq> None" "personas_limpias (working ca) = personas_limpias (working c0)"
      "personas_limpias_new (working ca) = personas_limpias_new (working c0)"
      "etl_runs (working ca) = etl_runs (working c0)" "closed ca = closed c0"
    and a2: "ciudades (working c0) \<noteq> None \<longrightarrow> ca = c0"
    using ensure_ciudades_props [of c0] c0 by blast
  have ok_a: "store_ok (working ca) = store_ok (working c0)"
    using a1 by (simp add: store_ok_def staging_rows_def)
  have keys_a: "person_keys (working ca) = person_keys (working c0)"
    using a1 by (simp add: person_keys_def)
  obtain cb where b: "migrate_personas_limpias_if_needed ca = (Inr (), cb)"
    and b1: "ciudades (working cb) = ciudades (working ca)" "etl_runs (working cb) = etl_runs (working ca)"
      "closed cb = closed ca"
      "personas_limpias (working ca) = None \<longrightarrow> personas_limpias (working cb) = None"
      "personas_limpias (working ca) \<noteq> None \<longrightarrow> (\<exists>t. personas_limpias (working cb) = Some (Audited t))"
      "store_ok (working ca) \<longrightarrow> person_keys (working cb) = person_keys (working ca)"
    and b2: "(\<forall>t. personas_limpias (working ca) \<noteq> Some (Relational t)) \<longrightarrow> cb = ca"
    using migrate_props [of ca] by (elim exE conjE) (rule that)
  obtain cc where c: "ensure_personas_limpias cb = (Inr (), cc)"
    and c1: "ciudades (working cc) = ciudades (working cb)"
      "personas_limpias (working cc)
         = (case personas_limpias (working cb) of None \<Rightarrow> Some (Audited (Table [] 0)) | Some p \<Rightarrow> Some p)"
      "etl_runs (working cc) = etl_runs (working cb)" "closed cc = closed cb"
    and c2: "personas_limpias (working cb) \<noteq> None \<longrightarrow> durable cb = working cb \<longrightarrow> cc = cb"
    using ensure_personas_limpias_props [of cb] by blast
  obtain cd where d: "ensure_etl_runs cc = (Inr (), cd)"
    and d1: "ciudades (working cd) = ciudades (working cc)"
      "personas_limpias (working cd) = personas_limpias (working cc)"
      "etl_runs (working cd) \<noteq> None" "closed cd = closed cc"
    and d2: "etl_runs (working cc) \<noteq> None \<longrightarrow> durable cc = working cc \<longrightarrow> cd = cc"
    using ensure_etl_runs_props [of cc] by blast
  obtain pt where pt: "personas_limpias (working cd) = Some (Audited pt)"
    using b1(4,5) c1(2) d1(2) by (cases "personas_limpias (working ca)") auto
  obtain ct where ct: "ciudades (working cd) = Some ct"
    using a1(1) b1(1) c1(1) d1(1) by auto
  obtain runs where runs: "etl_runs (working cd) = Some runs"
    using d1(3) by auto
  have run: "\<And>k. (db_bind ensure_ciudades (\<lambda>_.
            db_bind migrate_personas_limpias_if_needed (\<lambda>_.
            db_bind ensure_personas_limpias (\<lambda>_.
            db_bind ensure_etl_runs (\<lambda>_. k))))) c0 = k cd"
    by (simp add: a b c d)
  have keys: "map persona_key (table_rows pt) = person_keys db" if ok: "store_ok db"
  proof -
    have "person_keys (working cb) = person_keys db"
      using ok b1(6) ok_a keys_a c0 by simp
    moreover have "person_keys (working cd) = person_keys (working cb)"
      using c1(2) d1(2) by (auto simp: person_keys_def split: option.splits)
    ultimately show ?thesis
      using pt by (simp add: person_keys_Audited)
  qed
  have same: "cd = c0"
    if ex: "ciudades db \<noteq> None \<and> (\<exists>t. personas_limpias db = Some (Audited t)) \<and> etl_runs db \<noteq> None"
  proof -
    have "ca = c0" using a2 ex c0 by simp
    moreover have "cb = ca" using b2 ex c0 \<open>ca = c0\<close> by auto
    moreover have "cc = cb" using c2 ex c0 \<open>ca = c0\<close> \<open>cb = ca\<close> by auto
    moreover have "cd = cc" using d2 ex c0 \<open>ca = c0\<close> \<open>cb = ca\<close> \<open>cc = cb\<close> by auto
    ultimately show ?thesis by simp
  qed
  show ?thesis
    using run ct pt runs keys same a1(5) b1(3) c1(4) d1(4) c0(3)
    unfolding c0_def by blast
qed

lemma ensure_schema_props:
  "\<exists>c1. ensure_schema c = (Inr (), c1) \<and> ciudades (working c1) \<noteq> None
     \<and> personas_limpias (working c1)
         = (case personas_limpias (working c) of None \<Rightarrow> Some (Audited (Table [] 0)) | Some p \<Rightarrow> Some p)
     \<and> personas_limpias_new (working c1) = personas_limpias_new (working c)
     \<and> etl_runs (working c1) \<noteq> None
     \<and> closed c1 = closed c
     \<and> (\<forall>x. ciudad_id_of (working c1) x = ciudad_id_of (working c) x)
     \<and> (ciudades (working c) \<noteq> None \<longrightarrow> personas_limpias (working c) \<noteq> None
          \<longrightarrow> etl_runs (working c) \<noteq> None \<longrightarrow> working c1 = working c)"
  by (cases c)
    (auto simp: ensure_schema_def execute_ddl_def create_ciudades_def create_personas_limpias_def
      create_etl_runs_def db_bind_def ciudad_id_of_def split: option.splits)

lemma in_map_filter: "v \<in> set vs \<Longrightarrow> f v = Some k \<Longrightarrow> k \<in> set (List.map_filter f vs)"
  by (auto simp: List.map_filter_def intro!: image_eqI [where x = v])

lemma close_after:
  "db_bind m (\<lambda>log. db_bind close (\<lambda>_. db_return log)) c =
     (case m c of
        (Inl e, c') \<Rightarrow> (Inl e, c')
      | (Inr log, c') \<Rightarrow> (Inr log, c'\<lparr>working := durable c', in_transaction := False, closed := True\<rparr>))"
  by (simp add: db_bind_def close_def db_return_def split: prod.splits sum.splits)

lemma tail_outcome:
  assumes ct: "ciudades (working c) = Some ct"
    and p: "personas_limpias (working c) = Some p"
    and run: "load_tail rid sa pa src vs rc c = (Inr log, c')"
  shows "load_outcome (working c) (working c') log vs"
proof -
  note f = load_tail_success [OF ct p run]
  have keys: "person_keys (working c')
         = fold add_key (List.map_filter (resolved_key (working c')) vs) (person_keys (working c))"
    using f by blast
  have res: "\<exists>k. resolved_key (working c') v = Some k
            \<and> (k \<notin> set (person_keys (working c)) \<longrightarrow> count_list (person_keys (working c')) k = 1)"
    if v: "v \<in> set vs" for v
  proof -
    obtain n e ci where v_eq: "v = (n, e, ci)" by (cases v) auto
    obtain cid where "ciudad_id_of (working c') ci = Some cid"
      using f v v_eq by blast
    then have k: "resolved_key (working c') v = Some (n, e, cid)"
      by (simp add: v_eq)
    have "(n, e, cid) \<in> set (List.map_filter (resolved_key (working c')) vs)"
      using in_map_filter [of v vs "resolved_key (working c')" "(n, e, cid)"] v k by blast
    then show ?thesis
      using k by (simp add: keys count_list_fold_add_key)
  qed
  have ins: "inserted_new log
          = int (card (set (List.map_filter (resolved_key (working c')) vs) - set (person_keys (working c))))"
    using f by (simp add: keys length_fold_add_key)
  have sum: "inserted_new log + ignored_duplicates log = int (length vs)"
    using f by simp
  show ?thesis
    unfolding load_outcome_def using sum res ins by blast
qed


lemma load_incremental_eq:
  "\<exists>c1 ct pt runs.
     load_incremental now1 now2 now3 db source_file validos rejected_count
       = (case load_tail (strftime_seconds now2) (isoformat now1) (isoformat now3) source_file validos
                 rejected_count c1 of
            (Inl e, c') \<Rightarrow> (Inl e, c')
          | (Inr log, c') \<Rightarrow>
              (Inr log, c'\<lparr>working := durable c', in_transaction := False, closed := True\<rparr>))
     \<and> ciudades (working c1) = Some ct \<and> personas_limpias (working c1) = Some (Audited pt)
     \<and> etl_runs (working c1) = Some runs \<and> closed c1 = False
     \<and> (store_ok db \<longrightarrow> person_keys (working c1) = person_keys db)
     \<and> (ciudades db \<noteq> None \<and> (\<exists>t. personas_limpias db = Some (Audited t)) \<and> etl_runs db \<noteq> None
          \<longrightarrow> c1 = connect db)"
proof -
  obtain c1 ct pt runs where
    k: "\<And>k :: store conn \<Rightarrow> (py_exception + run_log) \<times> store conn. (db_bind ensure_ciudades (\<lambda>_.
            db_bind migrate_personas_limpias_if_needed (\<lambda>_.
            db_bind ensure_personas_limpias (\<lambda>_.
            db_bind ensure_etl_runs (\<lambda>_. k))))) (connect db) = k c1"
    and f: "ciudades (working c1) = Some ct" "personas_limpias (working c1) = Some (Audited pt)"
      "etl_runs (working c1) = Some runs" "closed c1 = False"
      "store_ok db \<longrightarrow> map persona_key (table_rows pt) = person_keys db"
      "ciudades db \<noteq> None \<and> (\<exists>t. personas_limpias db = Some (Audited t)) \<and> etl_runs db \<noteq> None
          \<longrightarrow> c1 = connect db"
    using incremental_prefix [of db] by (elim exE conjE) (rule that, blast+)
  have "load_incremental now1 now2 now3 db source_file validos rejected_count
      = db_bind (load_tail (strftime_seconds now2) (isoformat now1) (isoformat now3) source_file validos
                rejected_count) (\<lambda>log. db_bind close (\<lambda>_. db_return log)) c1"
    unfolding load_incremental_tail by (rule k)
  then show ?thesis
    using f unfolding close_after
    by (auto simp: person_keys_Audited)
qed

lemma load_outcome_cong:
  "person_keys st1 = person_keys st2 \<Longrightarrow> load_outcome st1 st' log vs = load_outcome st2 st' log vs"
  by (simp add: load_outcome_def)

lemma load_incremental_outcome:
  assumes ok: "store_ok db"
    and run: "load_incremental now1 now2 now3 db source_file validos rejected_count = (Inr log, c')"
  shows "load_outcome db (durable c') log validos"
proof -
  obtain c1 ct pt where
    eq: "load_incremental now1 now2 now3 db source_file validos rejected_count
       = (case load_tail (strftime_seconds now2) (isoformat now1) (isoformat now3) source_file validos
                 rejected_count c1 of
            (Inl e, c') \<Rightarrow> (Inl e, c')
          | (Inr log, c') \<Rightarrow>
              (Inr log, c'\<lparr>working := durable c', in_transaction := False, closed := True\<rparr>))"
    and ct: "ciudades (working c1) = Some ct" and pt: "personas_limpias (working c1) = Some (Audited pt)"
    and keys: "person_keys (working c1) = person_keys db"
    using load_incremental_eq [of now1 now2 now3 db source_file validos rejected_count] ok by blast
  obtain c2 where tail: "load_tail (strftime_seconds now2) (isoformat now1) (isoformat now3) source_file
        validos rejected_count c1 = (Inr log, c2)"
    and c': "c' = c2\<lparr>working := durable c2, in_transaction := False, closed := True\<rparr>"
    using run unfolding eq by (auto split: prod.splits sum.splits)
  have "durable c2 = working c2"
    using load_tail_success [OF ct pt tail] by blast
  then show ?thesis
    using tail_outcome [OF ct pt tail] load_outcome_cong [OF keys] by (simp add: c')
qed

lemma load_batch_outcome:
  assumes run: "load_batch now1 now2 source_file validos rejected_count c = (Inr log, c')"
  shows "load_outcome (working c) (durable c') log validos"
proof -
  obtain cx where es: "ensure_schema c = (Inr (), cx)" and ct: "ciudades (working cx) \<noteq> None"
    and p: "personas_limpias (working cx)
         = (case personas_limpias (working c) of None \<Rightarrow> Some (Audited (Table [] 0)) | Some p \<Rightarrow> Some p)"
    using ensure_schema_props [of c] by blast
  obtain ctx where ctx: "ciudades (working cx) = Some ctx"
    using ct by auto
  obtain px where px: "personas_limpias (working cx) = Some px"
    using p by (cases "personas_limpias (working c)") auto
  have keys: "person_keys (working cx) = person_keys (working c)"
    using p by (cases "personas_limpias (working c)") (auto simp: person_keys_def)
  have tail: "load_tail (make_run_id now1 source_file) (isoformat now2) (isoformat now2) source_file
        validos rejected_count cx = (Inr log, c')"
    using run unfolding load_batch_tail by (simp add: es)
  have "durable c' = working c'"
    using load_tail_success [OF ctx px tail] by blast
  then show ?thesis
    using tail_outcome [OF ctx px tail] load_outcome_cong [OF keys] by simp
qed



lemma conn_ok_apply_operations: "conn_ok c \<Longrightarrow> conn_ok (fold apply_operation ops c)"
  by (induction ops arbitrary: c) (auto simp: apply_operation_def intro: conn_ok_run_operation)

text \<open>
  C3. Whatever sequence of operations of the schema manager, the migration and the
  loaders is run from an empty database, no two rows of
  \<^verbatim>\<open>personas_limpias\<close> share
  \<^verbatim>\<open>(nombre, edad, ciudad_id)\<close>, neither in what the connection sees
  nor in what the
  file holds.
\<close>

theorem personas_unique_in_every_reachable_store:
  "personas_unique (working (fold apply_operation ops (connect empty_store)))
   \<and> personas_unique (durable (fold apply_operation ops (connect empty_store)))"
  using conn_ok_apply_operations [OF conn_ok_connect [OF store_ok_empty], of ops]
  by (auto simp: conn_ok_def store_ok_def personas_unique_def split: option.splits)

theorem personas_unique_in_every_reachable_store_witness:
  "personas_unique (working (fold apply_operation
      [EnsureSchemaRelational, InsertValidosRelational [(''Ana'', 30, ''Lima''), (''Ana'', 30, ''Lima'')],
       Commit, Close,
       LoadIncremental clock_a clock_a clock_a ''personas_crudas.csv''
         [(''Ana'', 30, ''Lima''), (''Bo'', 40, ''Cusco''), (''Bo'', 40, ''Cusco'')] 0]
      (connect empty_store)))"
  using personas_unique_in_every_reachable_store [of
      "[EnsureSchemaRelational, InsertValidosRelational [(''Ana'', 30, ''Lima''), (''Ana'', 30, ''Lima'')],
       Commit, Close,
       LoadIncremental clock_a clock_a clock_a ''personas_crudas.csv''
         [(''Ana'', 30, ''Lima''), (''Bo'', 40, ''Cusco''), (''Bo'', 40, ''Cusco'')] 0]"]
  by (rule conjunct1)

text \<open>
  C4. On a store whose \<^verbatim>\<open>personas_limpias\<close> is of the older
  generation, the
  migration returns a store in which every original row is found with
  \<^verbatim>\<open>processed_at = "1970-01-01T00:00:00Z"\<close> and
  \<^verbatim>\<open>run_id = "MIGRATION"\<close>, and a
  second migration right after it changes nothing. The store is one that satisfies
  \<open>store_ok\<close>, as every store the operations reach does (\<open>conn_ok_apply_operations\<close>).
\<close>

theorem migration_twice_is_noop:
  assumes ok: "store_ok (working c)"
    and old: "personas_limpias (working c) = Some (Relational t)"
  shows "\<exists>c1 t1. migrate_personas_limpias_if_needed c = (Inr (), c1)
     \<and> personas_limpias (working c1) = Some (Audited t1)
     \<and> migrate_personas_limpias_if_needed c1 = (Inr (), c1)
     \<and> (\<forall>(persona_id, nombre, edad, ciudad_id) \<in> set (table_rows t).
           (persona_id, nombre, edad, ciudad_id, ''1970-01-01T00:00:00Z'', ''MIGRATION'')
             \<in> set (table_rows t1))"
proof -
  have ids: "distinct (map fst (table_rows t))" and keys: "distinct (map rel_key (table_rows t))"
    and staging: "staging_rows (working c) = []"
    using ok old by (auto simp: store_ok_def)
  show ?thesis
    unfolding migrate_relational [OF old ids keys staging]
    by (auto simp: migrate_audited default_processed_at_def default_run_id_def
        intro!: image_eqI [where f = "with_audit ''1970-01-01T00:00:00Z'' ''MIGRATION''"])
qed

theorem migration_twice_is_noop_witness:
  "store_ok old_store
   \<and> (\<exists>c1 t1. migrate_personas_limpias_if_needed (connect old_store) = (Inr (), c1)
     \<and> personas_limpias (working c1) = Some (Audited t1)
     \<and> migrate_personas_limpias_if_needed c1 = (Inr (), c1)
     \<and> (1, ''Ana'', 30, 1, ''1970-01-01T00:00:00Z'', ''MIGRATION'') \<in> set (table_rows t1)
     \<and> (2, ''Bo'', 40, 2, ''1970-01-01T00:00:00Z'', ''MIGRATION'') \<in> set (table_rows t1))"
proof -
  have ok: "store_ok (working (connect old_store))"
    by (simp add: store_ok_def staging_rows_def old_store_def connect_def)
  have old: "personas_limpias (working (connect old_store))
      = Some (Relational (Table [(1, ''Ana'', 30, 1), (2, ''Bo'', 40, 2)] 2))"
    by (simp add: old_store_def connect_def)
  show ?thesis
    using ok migration_twice_is_noop [OF ok old]
    by (auto simp: connect_def)
qed

text \<open>
  C5. On a store whose \<^verbatim>\<open>personas_limpias\<close> is of the older
  generation, the
  migration keeps the rows as they are: the first four columns of the new table are the
  old table, the two audit columns hold the defaults, the multiset of
  \<^verbatim>\<open>(nombre, edad, ciudad_id)\<close> is the same and no triple occurs twice. The store is
  one that satisfies \<open>store_ok\<close>.
\<close>

theorem migration_preserves_rows:
  assumes ok: "store_ok (working c)"
    and old: "personas_limpias (working c) = Some (Relational t)"
  shows "\<exists>c1 t1. migrate_personas_limpias_if_needed c = (Inr (), c1)
     \<and> personas_limpias (working c1) = Some (Audited t1)
     \<and> selected_columns (Audited t1) = table_rows t
     \<and> (\<forall>r \<in> set (table_rows t1).
           snd (snd (snd (snd r))) = (''1970-01-01T00:00:00Z'', ''MIGRATION''))
     \<and> mset (map persona_key (table_rows t1)) = mset (map rel_key (table_rows t))
     \<and> distinct (map persona_key (table_rows t1))"
proof -
  have ids: "distinct (map fst (table_rows t))" and keys: "distinct (map rel_key (table_rows t))"
    and staging: "staging_rows (working c) = []"
    using ok old by (auto simp: store_ok_def)
  have sel: "map (\<lambda>(persona_id, nombre, edad, ciudad_id, _, _). (persona_id, nombre, edad, ciudad_id))
      (map (with_audit pa rid) rs) = rs" for pa rid and rs :: "persona_rel_row list"
    by (induction rs) auto
  have k: "map persona_key (map (with_audit pa rid) rs) = map rel_key rs"
    for pa rid and rs :: "persona_rel_row list"
    by simp
  show ?thesis
    unfolding migrate_relational [OF old ids keys staging]
    using keys
    by (auto simp: sel k default_processed_at_def default_run_id_def multiset.map_comp comp_def
        simp del: map_map)
qed

theorem migration_preserves_rows_witness:
  "store_ok old_store
   \<and> (\<exists>c1 t1. migrate_personas_limpias_if_needed (connect old_store) = (Inr (), c1)
     \<and> personas_limpias (working c1) = Some (Audited t1)
     \<and> selected_columns (Audited t1) = [(1, ''Ana'', 30, 1), (2, ''Bo'', 40, 2)]
     \<and> mset (map persona_key (table_rows t1)) = mset [(''Ana'', 30, 1), (''Bo'', 40, 2)])"
proof -
  have ok: "store_ok (working (connect old_store))"
    by (simp add: store_ok_def staging_rows_def old_store_def connect_def)
  have old: "personas_limpias (working (connect old_store))
      = Some (Relational (Table [(1, ''Ana'', 30, 1), (2, ''Bo'', 40, 2)] 2))"
    by (simp add: old_store_def connect_def)
  show ?thesis
    using ok migration_preserves_rows [OF ok old]
    by (auto simp: connect_def)
qed



text \<open>
  C10. When a load returns, \<^verbatim>\<open>inserted_new + ignored_duplicates\<close> is
  the length of
  the batch, a triple of the batch that the store did not hold is held by exactly one row
  however often the batch repeats it, and \<^verbatim>\<open>inserted_new\<close> counts
  each such triple
  once. For \<^verbatim>\<open>load_incremental\<close> the store is the database file,
  which satisfies the
  declared constraints; for \<^verbatim>\<open>load_batch\<close> it is what the connection
  sees.
\<close>

theorem load_counts_each_new_triple_once:
  "(store_ok db
      \<and> load_incremental now1 now2 now3 db source_file validos rejected_count = (Inr log, c')
    \<longrightarrow> load_outcome db (durable c') log validos)
   \<and> (load_batch now1 now2 source_file validos rejected_count c = (Inr log', c'')
    \<longrightarrow> load_outcome (working c) (durable c'') log' validos)"
  using load_incremental_outcome [of db now1 now2 now3 source_file validos rejected_count log c']
    load_batch_outcome [of now1 now2 source_file validos rejected_count c log' c'']
  by blast

theorem load_counts_each_new_triple_once_witness:
  "store_ok empty_store
   \<and> fst (load_incremental clock_a clock_a clock_a empty_store ''personas_crudas.csv'' sample_validos 1)
     = Inr \<lparr>log_run_id = ''20240102T030405Z'', filas_antes = 0, filas_despues = 2,
            inserted_new = 2, ignored_duplicates = 1\<rparr>
   \<and> load_outcome empty_store
        (durable (snd (load_incremental clock_a clock_a clock_a empty_store ''personas_crudas.csv''
           sample_validos 1)))
        \<lparr>log_run_id = ''20240102T030405Z'', filas_antes = 0, filas_despues = 2,
            inserted_new = 2, ignored_duplicates = 1\<rparr> sample_validos"
proof -
  let ?first = "load_incremental clock_a clock_a clock_a empty_store ''personas_crudas.csv'' sample_validos 1"
  let ?log1 = "\<lparr>log_run_id = ''20240102T030405Z'', filas_antes = 0, filas_despues = 2,
            inserted_new = 2, ignored_duplicates = 1\<rparr>"
  have r: "fst ?first = Inr ?log1"
    by code_simp
  then have first: "?first = (Inr ?log1, snd ?first)"
    by (metis prod.collapse)
  have ok: "store_ok empty_store"
    by (simp add: store_ok_def empty_store_def staging_rows_def)
  show ?thesis
    using r ok load_counts_each_new_triple_once [THEN conjunct1, rule_format, OF conjI, OF ok first]
    by simp
qed

text \<open>
  C6. The run identifier of \<^verbatim>\<open>load_incremental\<close> is the clock reading
  to the
  second: two runs started within one second get the same identifier and the second run
  raises \<^verbatim>\<open>IntegrityError\<close> on \<^verbatim>\<open>etl_runs\<close>,
  whereas \<^verbatim>\<open>make_run_id\<close> of
  etl_batch.py tells the two readings apart.
\<close>

theorem run_id_repeats_within_one_second:
  "strftime_seconds clock_a = strftime_seconds clock_b
   \<and> fst (load_incremental clock_b clock_b clock_b
        (durable (snd (load_incremental clock_a clock_a clock_a empty_store ''personas_crudas.csv''
           sample_validos 1)))
        ''personas_crudas.csv'' sample_validos 1) = Inl IntegrityError
   \<and> make_run_id clock_a ''personas_crudas.csv'' \<noteq> make_run_id clock_b ''personas_crudas.csv''"
  by code_simp

text \<open>
  C8. On a database without \<^verbatim>\<open>personas_limpias\<close>,
  \<^verbatim>\<open>load\<close> of etl_refactor.py
  and etl_from_csv.py raises \<^verbatim>\<open>OperationalError\<close> in
  \<^verbatim>\<open>ensure_table_with_unique\<close>,
  and again on the next run, while \<^verbatim>\<open>load_incremental\<close> loads the
  same records.
\<close>

theorem load_on_fresh_store_raises:
  "fst (load empty_flat_store sample_validos) = Inl OperationalError
   \<and> fst (load (durable (the (snd (load empty_flat_store sample_validos)))) sample_validos)
       = Inl OperationalError
   \<and> fst (load_incremental clock_a clock_a clock_a empty_store ''personas_crudas.csv'' sample_validos 1)
     = Inr \<lparr>log_run_id = ''20240102T030405Z'', filas_antes = 0, filas_despues = 2,
            inserted_new = 2, ignored_duplicates = 1\<rparr>"
  by code_simp














end
